theory Spec2Isabelle
  imports Main "HOL-Library.Sublist" "HOL-Library.AList"
begin

section \<open>JavaScript strings\<close>

text \<open>
  Strings are lists of characters. The source's \<^verbatim>\<open>toLowerCase\<close> and
  \<^verbatim>\<open>toUpperCase\<close> are modelled on the ASCII letters; every other character is
  left as it is.
\<close>

definition upper_letters :: string where
  "upper_letters = ''ABCDEFGHIJKLMNOPQRSTUVWXYZ''"

definition lower_letters :: string where
  "lower_letters = ''abcdefghijklmnopqrstuvwxyz''"

definition lower_char :: "char \<Rightarrow> char" where
  "lower_char c = (case map_of (zip upper_letters lower_letters) c of Some d \<Rightarrow> d | None \<Rightarrow> c)"

definition upper_char :: "char \<Rightarrow> char" where
  "upper_char c = (case map_of (zip lower_letters upper_letters) c of Some d \<Rightarrow> d | None \<Rightarrow> c)"

definition toLowerCase :: "string \<Rightarrow> string" where
  "toLowerCase s = map lower_char s"

definition toUpperCase :: "string \<Rightarrow> string" where
  "toUpperCase s = map upper_char s"

text \<open>\<^verbatim>\<open>s.startsWith(p)\<close> and \<^verbatim>\<open>s.includes(p)\<close>.\<close>

definition startsWith :: "string \<Rightarrow> string \<Rightarrow> bool" where
  "startsWith s p = prefix p s"

fun str_includes :: "string \<Rightarrow> string \<Rightarrow> bool" where
  "str_includes [] p = (p = [])"
| "str_includes (c # cs) p = (prefix p (c # cs) \<or> str_includes cs p)"

text \<open>\<^verbatim>\<open>s.split(' ')\<close>: every single space separates, so two spaces in a row
  give an empty word, and the empty string gives one empty word.\<close>

fun split_space :: "string \<Rightarrow> string list" where
  "split_space [] = [[]]"
| "split_space (c # cs) =
     (if c = CHR '' '' then [] # split_space cs
      else (case split_space cs of [] \<Rightarrow> [[c]] | w # ws \<Rightarrow> (c # w) # ws))"

text \<open>\<^verbatim>\<open>xs.join(sep)\<close> on a list of strings.\<close>

fun join :: "string list \<Rightarrow> string \<Rightarrow> string" where
  "join [] sep = []"
| "join [x] sep = x"
| "join (x # y # ys) sep = x @ sep @ join (y # ys) sep"

text \<open>\<^verbatim>\<open>s.charAt(0)\<close> (the empty string when \<open>s\<close> is empty) and
  \<^verbatim>\<open>s.slice(1)\<close>.\<close>

definition charAt0 :: "string \<Rightarrow> string" where
  "charAt0 s = take 1 s"

definition slice1 :: "string \<Rightarrow> string" where
  "slice1 s = drop 1 s"

text \<open>
  \<^verbatim>\<open>s.replace(pattern, replacement)\<close> with a string pattern replaces the first
  occurrence only. In the replacement, \<^verbatim>\<open>$$\<close> stands for a dollar sign,
  \<^verbatim>\<open>$&\<close> for the matched text, and a dollar sign followed by a backquote or an
  apostrophe for the text that precedes or follows the match.
\<close>

fun expand_replacement :: "string \<Rightarrow> string \<Rightarrow> string \<Rightarrow> string \<Rightarrow> string" where
  "expand_replacement [] m pre post = []"
| "expand_replacement [c] m pre post = [c]"
| "expand_replacement (c # d # r) m pre post =
     (if c = CHR ''$'' then
        (if d = CHR ''$'' then CHR ''$'' # expand_replacement r m pre post
         else if d = CHR ''&'' then m @ expand_replacement r m pre post
         else if d = CHR 0x60 then pre @ expand_replacement r m pre post
         else if d = CHR 0x27 then post @ expand_replacement r m pre post
         else c # expand_replacement (d # r) m pre post)
      else c # expand_replacement (d # r) m pre post)"

fun replace_from :: "string \<Rightarrow> string \<Rightarrow> string \<Rightarrow> string \<Rightarrow> string" where
  "replace_from pre [] p r =
     (if p = [] then expand_replacement r [] pre [] else [])"
| "replace_from pre (c # cs) p r =
     (if prefix p (c # cs)
      then expand_replacement r p pre (drop (length p) (c # cs)) @ drop (length p) (c # cs)
      else c # replace_from (pre @ [c]) cs p r)"

definition replace :: "string \<Rightarrow> string \<Rightarrow> string \<Rightarrow> string" where
  "replace s p r = replace_from [] s p r"

section \<open>The fallback synthesizer (\<^verbatim>\<open>lib/openai.ts\<close>, \<^verbatim>\<open>generateFallbackSlides\<close>)\<close>

subsection \<open>Decks, slides and themes\<close>

text \<open>The slide content is a list of strings, one string, or \<^verbatim>\<open>undefined\<close>.\<close>

datatype slide_content = ContentList "string list" | ContentString string | ContentUndefined

record styling =
  titleSize :: "string option"
  titleWeight :: "string option"
  titleColor :: "string option"
  subtitleSize :: "string option"
  contentSize :: "string option"
  textAlign :: "string option"
  padding :: "string option"
  borderRadius :: "string option"
  shadow :: "string option"
  overlay :: "string option"
  iconColor :: "string option"
  bulletStyle :: "string option"

definition no_styling :: styling where
  "no_styling = \<lparr>titleSize = None, titleWeight = None, titleColor = None, subtitleSize = None,
     contentSize = None, textAlign = None, padding = None, borderRadius = None, shadow = None,
     overlay = None, iconColor = None, bulletStyle = None\<rparr>"

record slide =
  s_id :: nat
  s_type :: string
  s_title :: string
  s_subtitle :: "string option"
  s_content :: slide_content
  s_speakerNotes :: "string option"
  s_animation :: "string option"
  s_author :: "string option"
  s_layout :: "string option"
  s_backgroundStyle :: "string option"
  s_imageUrl :: "string option"
  s_imageDescription :: "string option"
  s_styling :: "styling option"

record theme =
  primaryColor :: string
  secondaryColor :: string
  backgroundColor :: string
  textColor :: string
  fontFamily :: string
  accentColor :: "string option"
  gradientStart :: "string option"
  gradientEnd :: "string option"
  headingFont :: "string option"
  bodyFont :: "string option"
  mood :: "string option"

record deck =
  d_title :: string
  d_description :: string
  d_theme :: theme
  d_slides :: "slide list"

subsection \<open>\<^verbatim>\<open>analyzePrompt\<close> and \<^verbatim>\<open>extractMainSubject\<close>\<close>

record analysis =
  industry :: string
  subject :: string
  presentationType :: string
  originalPrompt :: string

definition stopWords :: "string list" where
  "stopWords = [''create'', ''make'', ''generate'', ''about'', ''on'', ''for'', ''presentation'',
     ''slides'', ''a'', ''an'', ''the'', ''and'', ''or'', ''but'']"

definition extractMainSubject :: "string \<Rightarrow> string" where
  "extractMainSubject prompt =
     (let words = split_space (toLowerCase prompt);
          meaningfulWords = filter (\<lambda>word. word \<notin> set stopWords \<and> length word > 2) words
      in join (take 3 meaningfulWords) '' '')"

text \<open>The two classification chains of \<^verbatim>\<open>analyzePrompt\<close>, on the lower-cased prompt
  \<open>p\<close>: the first branch whose keyword occurs in \<open>p\<close> wins.\<close>

definition detect_industry :: "string \<Rightarrow> string" where
  "detect_industry p =
     (if str_includes p ''business'' \<or> str_includes p ''corporate'' \<or> str_includes p ''finance''
         \<or> str_includes p ''marketing'' then ''business''
      else if str_includes p ''tech'' \<or> str_includes p ''ai'' \<or> str_includes p ''artificial intelligence''
         \<or> str_includes p ''digital'' \<or> str_includes p ''software'' then ''technology''
      else if str_includes p ''health'' \<or> str_includes p ''medical'' \<or> str_includes p ''wellness''
         \<or> str_includes p ''fitness'' then ''health''
      else if str_includes p ''education'' \<or> str_includes p ''learning'' \<or> str_includes p ''teaching''
         \<or> str_includes p ''school'' then ''education''
      else if str_includes p ''environment'' \<or> str_includes p ''climate'' \<or> str_includes p ''sustainability''
         \<or> str_includes p ''green'' then ''environment''
      else if str_includes p ''creative'' \<or> str_includes p ''design'' \<or> str_includes p ''art''
         \<or> str_includes p ''innovation'' then ''creative''
      else ''general'')"

definition detect_presentationType :: "string \<Rightarrow> string" where
  "detect_presentationType p =
     (if str_includes p ''strategy'' \<or> str_includes p ''plan'' \<or> str_includes p ''approach''
        then ''strategic''
      else if str_includes p ''how to'' \<or> str_includes p ''guide'' \<or> str_includes p ''tutorial''
        then ''instructional''
      else if str_includes p ''benefits'' \<or> str_includes p ''advantages'' \<or> str_includes p ''why''
        then ''persuasive''
      else if str_includes p ''overview'' \<or> str_includes p ''introduction'' \<or> str_includes p ''about''
        then ''overview''
      else ''informational'')"

definition analyzePrompt :: "string \<Rightarrow> analysis" where
  "analyzePrompt prompt =
     (let p = toLowerCase prompt
      in \<lparr>industry = detect_industry p, subject = extractMainSubject prompt,
          presentationType = detect_presentationType p, originalPrompt = prompt\<rparr>)"

subsection \<open>\<^verbatim>\<open>getIndustryTheme\<close>\<close>

definition themes :: "(string \<times> theme) list" where
  "themes =
    [(''business'', \<lparr>primaryColor = ''#1e3a8a'', secondaryColor = ''#3b82f6'', backgroundColor = ''#ffffff'',
        textColor = ''#1f2937'', fontFamily = ''Inter'', accentColor = Some ''#d97706'',
        gradientStart = Some ''#1e3a8a'', gradientEnd = Some ''#3b82f6'',
        headingFont = Some ''Montserrat'', bodyFont = Some ''Open Sans'', mood = Some ''professional''\<rparr>),
     (''technology'', \<lparr>primaryColor = ''#6366f1'', secondaryColor = ''#8b5cf6'', backgroundColor = ''#ffffff'',
        textColor = ''#1f2937'', fontFamily = ''Inter'', accentColor = Some ''#06b6d4'',
        gradientStart = Some ''#6366f1'', gradientEnd = Some ''#8b5cf6'',
        headingFont = Some ''Poppins'', bodyFont = Some ''Inter'', mood = Some ''modern''\<rparr>),
     (''health'', \<lparr>primaryColor = ''#0891b2'', secondaryColor = ''#059669'', backgroundColor = ''#ffffff'',
        textColor = ''#1f2937'', fontFamily = ''Inter'', accentColor = Some ''#10b981'',
        gradientStart = Some ''#0891b2'', gradientEnd = Some ''#059669'',
        headingFont = Some ''Poppins'', bodyFont = Some ''Inter'', mood = Some ''clean''\<rparr>),
     (''education'', \<lparr>primaryColor = ''#f97316'', secondaryColor = ''#3b82f6'', backgroundColor = ''#ffffff'',
        textColor = ''#1f2937'', fontFamily = ''Inter'', accentColor = Some ''#10b981'',
        gradientStart = Some ''#f97316'', gradientEnd = Some ''#3b82f6'',
        headingFont = Some ''Poppins'', bodyFont = Some ''Inter'', mood = Some ''friendly''\<rparr>),
     (''environment'', \<lparr>primaryColor = ''#059669'', secondaryColor = ''#92400e'', backgroundColor = ''#ffffff'',
        textColor = ''#1f2937'', fontFamily = ''Inter'', accentColor = Some ''#fbbf24'',
        gradientStart = Some ''#059669'', gradientEnd = Some ''#92400e'',
        headingFont = Some ''Poppins'', bodyFont = Some ''Inter'', mood = Some ''natural''\<rparr>),
     (''creative'', \<lparr>primaryColor = ''#8b5cf6'', secondaryColor = ''#ec4899'', backgroundColor = ''#ffffff'',
        textColor = ''#1f2937'', fontFamily = ''Inter'', accentColor = Some ''#f97316'',
        gradientStart = Some ''#8b5cf6'', gradientEnd = Some ''#ec4899'',
        headingFont = Some ''Playfair Display'', bodyFont = Some ''Source Sans Pro'', mood = Some ''creative''\<rparr>),
     (''general'', \<lparr>primaryColor = ''#6366f1'', secondaryColor = ''#8b5cf6'', backgroundColor = ''#ffffff'',
        textColor = ''#1f2937'', fontFamily = ''Inter'', accentColor = Some ''#f59e0b'',
        gradientStart = Some ''#6366f1'', gradientEnd = Some ''#8b5cf6'',
        headingFont = Some ''Poppins'', bodyFont = Some ''Inter'', mood = Some ''modern''\<rparr>)]"

definition general_theme :: theme where
  "general_theme = \<lparr>primaryColor = ''#6366f1'', secondaryColor = ''#8b5cf6'', backgroundColor = ''#ffffff'',
        textColor = ''#1f2937'', fontFamily = ''Inter'', accentColor = Some ''#f59e0b'',
        gradientStart = Some ''#6366f1'', gradientEnd = Some ''#8b5cf6'',
        headingFont = Some ''Poppins'', bodyFont = Some ''Inter'', mood = Some ''modern''\<rparr>"

definition getIndustryTheme :: "string \<Rightarrow> theme" where
  "getIndustryTheme ind = (case map_of themes ind of Some t \<Rightarrow> t | None \<Rightarrow> general_theme)"

subsection \<open>\<^verbatim>\<open>generatePersonalizedContent\<close>: the content strategies\<close>

record slide_template =
  t_type :: string
  t_title :: string
  t_focus :: string

definition tpl :: "string \<Rightarrow> string \<Rightarrow> string \<Rightarrow> slide_template" where
  "tpl ty ti fo = \<lparr>t_type = ty, t_title = ti, t_focus = fo\<rparr>"

text \<open>The titles that mention the subject are template literals in the source: the subject
  is already in the title when the table is built.\<close>

definition contentStrategies :: "string \<Rightarrow> (string \<times> slide_template list) list" where
  "contentStrategies subj =
    [(''strategic'',
       [tpl ''hero'' (subj @ '': Strategic Approach'') ''strategy'',
        tpl ''content'' ''Current Situation Analysis'' ''analysis'',
        tpl ''content'' ''Strategic Objectives'' ''objectives'',
        tpl ''content'' ''Implementation Roadmap'' ''implementation'',
        tpl ''stats'' ''Expected Outcomes'' ''results'',
        tpl ''quote'' ''Strategic Insight'' ''inspiration'',
        tpl ''image-focus'' ''Next Steps'' ''action'']),
     (''instructional'',
       [tpl ''hero'' (''How to: '' @ subj) ''guide'',
        tpl ''content'' ''Getting Started'' ''basics'',
        tpl ''split'' ''Step-by-Step Process'' ''process'',
        tpl ''content'' ''Best Practices'' ''tips'',
        tpl ''content'' ''Common Mistakes to Avoid'' ''pitfalls'',
        tpl ''stats'' ''Success Metrics'' ''measurement'',
        tpl ''image-focus'' ''Take Action Today'' ''action'']),
     (''persuasive'',
       [tpl ''hero'' (''Why '' @ subj @ '' Matters'') ''importance'',
        tpl ''content'' ''The Problem'' ''problem'',
        tpl ''split'' ''The Solution'' ''solution'',
        tpl ''stats'' ''Proven Benefits'' ''benefits'',
        tpl ''quote'' ''Success Stories'' ''testimonial'',
        tpl ''content'' ''Implementation Steps'' ''action'',
        tpl ''image-focus'' ''Start Your Journey'' ''cta'']),
     (''overview'',
       [tpl ''hero'' (''Understanding '' @ subj) ''introduction'',
        tpl ''content'' ''Key Concepts'' ''concepts'',
        tpl ''split'' ''How It Works'' ''mechanism'',
        tpl ''stats'' ''By the Numbers'' ''data'',
        tpl ''content'' ''Real-World Applications'' ''applications'',
        tpl ''quote'' ''Expert Perspective'' ''authority'',
        tpl ''image-focus'' ''The Future'' ''future'']),
     (''informational'',
       [tpl ''hero'' (subj @ '': Complete Guide'') ''comprehensive'',
        tpl ''content'' ''Overview & Importance'' ''overview'',
        tpl ''split'' ''Key Components'' ''components'',
        tpl ''content'' ''Detailed Analysis'' ''analysis'',
        tpl ''stats'' ''Facts & Figures'' ''data'',
        tpl ''content'' ''Practical Applications'' ''practical'',
        tpl ''quote'' ''Industry Insights'' ''insights'',
        tpl ''image-focus'' ''Looking Forward'' ''conclusion''])]"

definition informational_slides :: "string \<Rightarrow> slide_template list" where
  "informational_slides subj =
     (case map_of (contentStrategies subj) ''informational'' of Some ts \<Rightarrow> ts | None \<Rightarrow> [])"

definition generatePersonalizedContent :: "analysis \<Rightarrow> slide_template list" where
  "generatePersonalizedContent a =
     (case map_of (contentStrategies (subject a)) (presentationType a) of
        Some ts \<Rightarrow> ts
      | None \<Rightarrow> informational_slides (subject a))"

subsection \<open>\<^verbatim>\<open>generateSlideContent\<close>: the content generators by focus tag\<close>

definition contentGenerators :: "string \<Rightarrow> (string \<times> string list) list" where
  "contentGenerators subj =
    [(''strategy'', [''Comprehensive '' @ subj @ '' strategy'', ''Market analysis and positioning'',
        ''Competitive advantages'', ''Risk assessment and mitigation'']),
     (''analysis'', [''Current market landscape for '' @ subj, ''Key challenges and opportunities'',
        ''Stakeholder impact assessment'', ''Resource requirements'']),
     (''objectives'', [''Primary goals for '' @ subj @ '' initiative'', ''Measurable success criteria'',
        ''Timeline and milestones'', ''Resource allocation strategy'']),
     (''implementation'', [''Phase 1: Foundation and planning'', ''Phase 2: Execution and monitoring'',
        ''Phase 3: Optimization and scaling'', ''Continuous improvement process'']),
     (''results'', [''85% improvement in efficiency'', ''200% increase in engagement'',
        ''50% reduction in costs'', ''95% user satisfaction rate'']),
     (''guide'', [''Complete '' @ subj @ '' methodology'', ''Proven techniques and approaches'',
        ''Expert recommendations'', ''Practical implementation tips'']),
     (''basics'', [''Essential '' @ subj @ '' fundamentals'', ''Core principles to understand'',
        ''Prerequisites and requirements'', ''Getting started checklist'']),
     (''process'', [''Step 1: Initial assessment and planning'',
        ''Step 2: Implementation and execution'', ''Step 3: Monitoring and adjustment'',
        ''Step 4: Evaluation and optimization'']),
     (''tips'', [''Industry best practices for '' @ subj, ''Expert recommendations'',
        ''Proven strategies that work'', ''Common success factors'']),
     (''pitfalls'', [''Avoid these common '' @ subj @ '' mistakes'', ''Warning signs to watch for'',
        ''How to prevent typical failures'', ''Recovery strategies when things go wrong'']),
     (''problem'', [''Current challenges with '' @ subj, ''Impact on stakeholders'',
        ''Cost of inaction'', ''Urgency for change'']),
     (''solution'', [''Innovative '' @ subj @ '' approach'', ''Proven methodology'',
        ''Comprehensive framework'', ''Scalable implementation'']),
     (''benefits'', [''Immediate advantages of '' @ subj, ''Long-term strategic value'',
        ''ROI and cost savings'', ''Competitive differentiation'']),
     (''concepts'', [''Core '' @ subj @ '' principles'', ''Fundamental concepts'',
        ''Key terminology'', ''Theoretical framework'']),
     (''mechanism'', [''How '' @ subj @ '' functions'', ''Underlying processes'',
        ''System architecture'', ''Workflow and procedures'']),
     (''data'', [subj @ '' market size: $2.5B'', ''Annual growth rate: 25%'',
        ''User adoption: 78%'', ''Success rate: 92%'']),
     (''applications'', [subj @ '' in enterprise'', ''Consumer applications'',
        ''Industry use cases'', ''Emerging opportunities'']),
     (''components'', [''Essential '' @ subj @ '' elements'', ''Core building blocks'',
        ''Integration points'', ''System dependencies'']),
     (''practical'', [''Real-world '' @ subj @ '' examples'', ''Case studies and results'',
        ''Implementation scenarios'', ''Practical considerations'']),
     (''comprehensive'', [''Everything you need to know about '' @ subj,
        ''Complete coverage of key topics'', ''Expert insights and analysis'',
        ''Actionable recommendations'']),
     (''overview'', [subj @ '' landscape overview'', ''Current state and trends'',
        ''Key players and stakeholders'', ''Market dynamics'']),
     (''insights'', [''Expert analysis of '' @ subj, ''Industry trends and patterns'',
        ''Future predictions'', ''Strategic recommendations'']),
     (''conclusion'', [''The future of '' @ subj, ''Emerging trends and opportunities'',
        ''Next steps and recommendations'', ''Call to action''])]"

definition generateSlideContent :: "slide_template \<Rightarrow> analysis \<Rightarrow> nat \<Rightarrow> string list" where
  "generateSlideContent slideTemplate a index =
     (case map_of (contentGenerators (subject a)) (t_focus slideTemplate) of
        Some content \<Rightarrow> content
      | None \<Rightarrow> [''Key points about '' @ subject a, ''Important considerations'',
                 ''Relevant information'', ''Next steps''])"

subsection \<open>\<^verbatim>\<open>generateFallbackSlides\<close>\<close>

definition animations :: "string list" where
  "animations = [''fadeIn'', ''slideInLeft'', ''slideInRight'', ''zoomIn'', ''bounceIn'']"

text \<open>The body of the \<^verbatim>\<open>contentStrategy.slides.map((slideTemplate, index) => ...)\<close>
  call. \<^verbatim>\<open>content[0]\<close> of an empty list is \<^verbatim>\<open>undefined\<close>.\<close>

definition fallback_slide :: "analysis \<Rightarrow> nat \<Rightarrow> slide_template \<Rightarrow> slide" where
  "fallback_slide a index slideTemplate =
     (let content = generateSlideContent slideTemplate a index
      in \<lparr>s_id = index + 1,
          s_type = t_type slideTemplate,
          s_title = replace (t_title slideTemplate) ''${subject}'' (subject a),
          s_subtitle = (if t_type slideTemplate = ''hero''
             then Some (''Based on your request: '' @ [CHR 0x22] @ originalPrompt a @ [CHR 0x22])
             else None),
          s_content = (if t_type slideTemplate = ''stats'' then ContentList content
             else if t_type slideTemplate = ''quote''
               then (case content of [] \<Rightarrow> ContentUndefined | c # _ \<Rightarrow> ContentString c)
             else ContentList content),
          s_speakerNotes = Some (''This slide covers '' @ t_focus slideTemplate @ '' aspects of ''
             @ subject a @ ''. Key points include the content shown and additional context ''
             @ ''relevant to your specific request about '' @ originalPrompt a @ ''.''),
          s_animation = Some (animations ! (index mod length animations)),
          s_author = (if t_type slideTemplate = ''quote'' then Some ''Industry Expert'' else None),
          s_layout = Some (if t_type slideTemplate = ''split'' then ''split'' else ''center''),
          s_backgroundStyle = Some (if index mod 3 = 0 then ''gradient''
             else if index mod 3 = 1 then ''image'' else ''gradient''),
          s_imageUrl = Some (''https://images.unsplash.com/1600x900/?''
             @ replace (subject a) '' '' '','' @ '','' @ industry a @ '','' @ t_focus slideTemplate),
          s_imageDescription = Some (''Visual representation of '' @ t_focus slideTemplate
             @ '' in '' @ subject a),
          s_styling = Some (no_styling\<lparr>
             titleSize := Some (if t_type slideTemplate = ''hero'' then ''6xl'' else ''4xl''),
             titleWeight := Some ''bold'',
             subtitleSize := Some ''2xl'',
             contentSize := Some ''lg'',
             textAlign := Some (if t_type slideTemplate = ''quote'' then ''center'' else ''left''),
             overlay := Some (if index mod 2 = 0 then ''dark'' else ''light'')\<rparr>)\<rparr>)"

text \<open>The planner branch reads the current date twice, as
  \<^verbatim>\<open>new Date().toLocaleDateString()\<close> and in the long en-US form; both
  strings are taken from the environment.\<close>

record today =
  localeDate :: string
  longDate :: string

definition planner_deck :: "today \<Rightarrow> string \<Rightarrow> deck" where
  "planner_deck td prompt =
     (let plannerAnalysis = analyzePrompt prompt
      in \<lparr>d_title = ''Personalized Daily Planner - '' @ localeDate td,
          d_description = ''Customized daily schedule based on: '' @ prompt,
          d_theme = \<lparr>primaryColor = ''#059669'', secondaryColor = ''#0d9488'', backgroundColor = ''#ffffff'',
        textColor = ''#1f2937'', fontFamily = ''Inter'', accentColor = Some ''#10b981'',
        gradientStart = Some ''#059669'', gradientEnd = Some ''#0d9488'',
        headingFont = Some ''Poppins'', bodyFont = Some ''Inter'', mood = Some ''productive''\<rparr>,
          d_slides =
           [\<lparr>s_id = 1, s_type = ''hero'',
             s_title = ''Your '' @ subject plannerAnalysis @ '' Day'',
             s_subtitle = Some (longDate td),
             s_content = ContentList [],
             s_speakerNotes = Some (''Today'' @ [CHR 0x27] @ ''s focus: '' @ subject plannerAnalysis
                @ ''. This planner is customized based on your specific request.''),
             s_animation = Some ''fadeIn'',
             s_author = None,
             s_layout = Some ''center'',
             s_backgroundStyle = Some ''gradient'',
             s_imageUrl = Some (''https://images.unsplash.com/1600x900/?''
                @ replace (subject plannerAnalysis) '' '' '','' @ '',productivity,planning''),
             s_imageDescription = Some (''Productivity setup for '' @ subject plannerAnalysis),
             s_styling = Some (no_styling\<lparr>titleSize := Some ''5xl'', titleWeight := Some ''bold'',
                subtitleSize := Some ''2xl'', textAlign := Some ''center'',
                overlay := Some ''dark''\<rparr>)\<rparr>]\<rparr>)"

definition capitalize :: "string \<Rightarrow> string" where
  "capitalize s = toUpperCase (charAt0 s) @ slice1 s"

definition generateFallbackSlides :: "today \<Rightarrow> string \<Rightarrow> bool \<Rightarrow> deck" where
  "generateFallbackSlides td prompt isDayPlanner =
     (let a = analyzePrompt prompt;
          theme = getIndustryTheme (industry a);
          contentStrategy = generatePersonalizedContent a
      in if isDayPlanner then planner_deck td prompt
         else \<lparr>d_title = capitalize (subject a) @ '': '' @ capitalize (presentationType a)
                  @ '' Guide'',
               d_description = ''A personalized presentation about '' @ subject a
                  @ '' based on your specific request: '' @ [CHR 0x22] @ originalPrompt a
                  @ [CHR 0x22],
               d_theme = theme,
               d_slides = map (\<lambda>(index, slideTemplate). fallback_slide a index slideTemplate)
                  (enumerate 0 contentStrategy)\<rparr>)"

section \<open>JavaScript values\<close>

text \<open>
  The values that flow through the orchestrator and the persistence layer: what
  \<^verbatim>\<open>JSON.parse\<close> returns (numbers are integers here), and the three host objects
  the persistence code handles, a \<^verbatim>\<open>Date\<close>, a Firestore
  \<^verbatim>\<open>Timestamp\<close> (both carry their instant in milliseconds) and a Firestore
  field value such as \<^verbatim>\<open>serverTimestamp()\<close>. An object is the list of its own
  properties in insertion order; a property that is not in the list reads as
  \<^verbatim>\<open>undefined\<close>, which is \<open>None\<close>.
\<close>

datatype jsval =
    Null
  | Bool bool
  | Num int
  | Str string
  | Arr "jsval list"
  | Obj "(string \<times> jsval) list"
  | DateObj nat
  | Timestamp nat
  | FieldValue string

record js_error =
  message :: string
  status :: "nat option"
  code :: "string option"

definition Error :: "string \<Rightarrow> js_error" where
  "Error msg = \<lparr>message = msg, status = None, code = None\<rparr>"

text \<open>The message of the engine's \<^verbatim>\<open>TypeError\<close> for a property read on
  \<^verbatim>\<open>null\<close>.\<close>

definition TypeError_null :: "string \<Rightarrow> js_error" where
  "TypeError_null k = Error (''Cannot read properties of null (reading '' @ [CHR 0x27] @ k
     @ [CHR 0x27] @ '')'')"

fun string_of_nat :: "nat \<Rightarrow> string" where
  "string_of_nat n =
     (if n < 10 then [''0123456789'' ! n]
      else string_of_nat (n div 10) @ [''0123456789'' ! (n mod 10)])"

declare string_of_nat.simps [simp del]

text \<open>The own enumerable properties of a value, which is what an object spread copies:
  the entries of an object, the indexed elements of an array, the indexed characters of a
  string, and nothing for the other values.\<close>

definition indexed :: "'a list \<Rightarrow> (string \<times> 'a) list" where
  "indexed xs = zip (map string_of_nat [0..<length xs]) xs"

fun own_props :: "jsval \<Rightarrow> (string \<times> jsval) list" where
  "own_props (Obj kvs) = kvs"
| "own_props (Arr xs) = indexed xs"
| "own_props (Str s) = indexed (map (\<lambda>c. Str [c]) s)"
| "own_props v = []"

text \<open>\<^verbatim>\<open>v.k\<close> for a value \<open>v\<close> that is not \<^verbatim>\<open>null\<close> and a
  property name \<open>k\<close> that no prototype defines; every name the modelled code reads is
  of that kind, but for \<^verbatim>\<open>length\<close>, which has its own function below.\<close>

definition js_get :: "jsval \<Rightarrow> string \<Rightarrow> jsval option" where
  "js_get v k = map_of (own_props v) k"

text \<open>\<^verbatim>\<open>v?.length\<close>, for \<open>v\<close> possibly \<^verbatim>\<open>undefined\<close>.\<close>

fun opt_length :: "jsval option \<Rightarrow> jsval option" where
  "opt_length None = None"
| "opt_length (Some Null) = None"
| "opt_length (Some (Arr xs)) = Some (Num (int (length xs)))"
| "opt_length (Some (Str s)) = Some (Num (int (length s)))"
| "opt_length (Some v) = js_get v ''length''"

text \<open>Truthiness, and \<^verbatim>\<open>a || b\<close>.\<close>

fun truthy :: "jsval option \<Rightarrow> bool" where
  "truthy None = False"
| "truthy (Some Null) = False"
| "truthy (Some (Bool b)) = b"
| "truthy (Some (Num n)) = (n \<noteq> 0)"
| "truthy (Some (Str s)) = (s \<noteq> [])"
| "truthy (Some v) = True"

definition or_else :: "jsval option \<Rightarrow> jsval \<Rightarrow> jsval" where
  "or_else a b = (case a of None \<Rightarrow> b | Some v \<Rightarrow> if truthy (Some v) then v else b)"

fun isArray :: "jsval option \<Rightarrow> bool" where
  "isArray (Some (Arr xs)) = True"
| "isArray v = False"

text \<open>An object literal, evaluated left to right: each entry defines its property, or
  overwrites it in place when the object has it already.\<close>

definition assign :: "(string \<times> jsval) list \<Rightarrow> (string \<times> jsval) list \<Rightarrow> (string \<times> jsval) list" where
  "assign obj kvs = fold (\<lambda>(k, v) acc. AList.update k v acc) kvs obj"

text \<open>\<^verbatim>\<open>v.k = x\<close> on an object.\<close>

fun set_prop :: "jsval \<Rightarrow> string \<Rightarrow> jsval \<Rightarrow> jsval" where
  "set_prop (Obj kvs) k x = Obj (AList.update k x kvs)"
| "set_prop v k x = v"

section \<open>The remote generation orchestrator (\<^verbatim>\<open>lib/openai.ts\<close>, \<^verbatim>\<open>generateSlides\<close>)\<close>

subsection \<open>\<^verbatim>\<open>createOpenAIClient\<close>\<close>

datatype client = OpenAI string

definition createOpenAIClient :: "string \<Rightarrow> js_error + client option" where
  "createOpenAIClient apiKey =
     (if apiKey = [] then Inl (Error ''No API key provided. Please set your OpenAI API key.'')
      else if apiKey = ''demo-key'' then Inr None
      else if \<not> startsWith apiKey ''sk-''
        then Inl (Error (''Invalid OpenAI API key format. Please check your API key ''
               @ ''and try again.''))
      else Inr (Some (OpenAI apiKey)))"

subsection \<open>The text-generation service\<close>

text \<open>
  A request carries the key of the client that sends it, which of the two system prompts
  it uses, and the user's prompt. The race of the request against the 45 second timer has
  three outcomes: the service answers with a message content (or without one), the
  request is rejected with an error, or the timer wins. \<^verbatim>\<open>JSON.parse\<close> is the
  platform's; it yields no value where it throws.
\<close>

datatype prompt_kind = SlideGenerationPrompt | DayPlannerPrompt

record chat_request =
  api_key :: string
  system_prompt :: prompt_kind
  user_prompt :: string

datatype api_outcome = Completed "string option" | Rejected js_error | TimedOut

record env =
  service :: "chat_request \<Rightarrow> api_outcome"
  JSON_parse :: "string \<Rightarrow> jsval option"
  date :: today

subsection \<open>Validation and normalization of the response\<close>

text \<open>The function passed to \<^verbatim>\<open>parsedContent.slides.map\<close>: seven entries with
  their \<^verbatim>\<open>||\<close> defaults, then the spread of the slide itself.\<close>

definition normalize_slide :: "nat \<Rightarrow> jsval \<Rightarrow> js_error + jsval" where
  "normalize_slide index slide =
     (if slide = Null then Inl (TypeError_null ''id'')
      else Inr (Obj (assign
        [(''id'', or_else (js_get slide ''id'') (Num (int index + 1))),
         (''type'', or_else (js_get slide ''type'') (Str ''content'')),
         (''title'', or_else (js_get slide ''title'')
             (Str (''Slide '' @ string_of_nat (index + 1)))),
         (''subtitle'', or_else (js_get slide ''subtitle'') (Str [])),
         (''content'', or_else (js_get slide ''content'') (Arr [])),
         (''speakerNotes'', or_else (js_get slide ''speakerNotes'') (Str [])),
         (''animation'', or_else (js_get slide ''animation'') (Str ''fadeIn''))]
        (own_props slide))))"

text \<open>A \<^verbatim>\<open>map\<close> whose function may throw stops at the first exception.\<close>

fun first_error :: "('e + 'a) list \<Rightarrow> 'e + 'a list" where
  "first_error [] = Inr []"
| "first_error (Inl e # rs) = Inl e"
| "first_error (Inr x # rs) = (case first_error rs of Inl e \<Rightarrow> Inl e | Inr xs \<Rightarrow> Inr (x # xs))"

definition normalize_slides :: "jsval list \<Rightarrow> js_error + jsval list" where
  "normalize_slides slides =
     first_error (map (\<lambda>(index, slide). normalize_slide index slide) (enumerate 0 slides))"

definition validate_and_normalize :: "jsval \<Rightarrow> js_error + jsval" where
  "validate_and_normalize parsedContent =
     (if parsedContent = Null then Inl (TypeError_null ''title'')
      else if \<not> truthy (js_get parsedContent ''title'') \<or> \<not> truthy (js_get parsedContent ''slides'')
              \<or> \<not> isArray (js_get parsedContent ''slides'')
        then Inl (Error ''Invalid response structure from OpenAI. Missing title or slides array.'')
      else (case js_get parsedContent ''slides'' of
              Some (Arr slides) \<Rightarrow>
                (case normalize_slides slides of
                   Inl e \<Rightarrow> Inl e
                 | Inr slides' \<Rightarrow> Inr (set_prop parsedContent ''slides'' (Arr slides')))
            | _ \<Rightarrow> Inl (Error (''Invalid response structure from OpenAI. ''
                       @ ''Missing title or slides array.''))))"

subsection \<open>The \<^verbatim>\<open>try\<close> block and the \<^verbatim>\<open>catch\<close> block\<close>

definition request_slides :: "env \<Rightarrow> chat_request \<Rightarrow> js_error + jsval" where
  "request_slides e req =
     (case service e req of
        TimedOut \<Rightarrow> Inl (Error ''Request timeout after 45 seconds'')
      | Rejected err \<Rightarrow> Inl err
      | Completed None \<Rightarrow> Inl (Error ''No response from OpenAI'')
      | Completed (Some content) \<Rightarrow>
          (if content = [] then Inl (Error ''No response from OpenAI'')
           else (case JSON_parse e content of
                   None \<Rightarrow> Inl (Error (''Failed to parse AI response as JSON. ''
                              @ ''The AI may have returned invalid format.''))
                 | Some parsedContent \<Rightarrow> validate_and_normalize parsedContent)))"

definition rethrow :: "js_error \<Rightarrow> js_error" where
  "rethrow err =
     (if str_includes (message err) ''timeout''
        then Error (''OpenAI request timed out. Please try again with a shorter prompt ''
               @ ''or check your internet connection.'')
      else if str_includes (message err) ''network'' \<or> str_includes (message err) ''fetch''
        then Error ''Network error connecting to OpenAI. Please check your internet connection.''
      else if str_includes (message err) ''JSON'' \<or> str_includes (message err) ''parse''
        then Error ''OpenAI returned invalid format. Please try rephrasing your prompt.''
      else if status err = Some 401
        then Error ''Invalid OpenAI API key. Please check your API key and try again.''
      else if status err = Some 429
        then Error ''OpenAI rate limit exceeded. Please wait a moment and try again.''
      else if status err = Some 500
        then Error ''OpenAI service error. Please try again in a few minutes.''
      else if status err = Some 400
        then Error ''Invalid request to OpenAI. Please try a different prompt.''
      else Error (''OpenAI API Error: ''
             @ (if message err = [] then ''Unknown error occurred'' else message err)
             @ ''. Please check your API key and try again.''))"

subsection \<open>\<^verbatim>\<open>generateSlides\<close>\<close>

text \<open>The result says where a deck came from: the fallback synthesizer, or the service's
  response. With it comes the list of the requests sent to the service.\<close>

datatype generated = Synthesized deck | Generated jsval

definition generateSlides ::
    "env \<Rightarrow> string \<Rightarrow> string \<Rightarrow> bool \<Rightarrow> chat_request list \<times> (js_error + generated)" where
  "generateSlides e apiKey prompt isDayPlanner =
     (if apiKey = ''demo-key''
        then ([], Inr (Synthesized (generateFallbackSlides (date e) prompt isDayPlanner)))
      else (case createOpenAIClient apiKey of
              Inl err \<Rightarrow> ([], Inl err)
            | Inr None \<Rightarrow>
                ([], Inl (Error ''Failed to create OpenAI client. Please check your API key.''))
            | Inr (Some (OpenAI k)) \<Rightarrow>
                (let req = \<lparr>api_key = k,
                       system_prompt = (if isDayPlanner then DayPlannerPrompt
                                        else SlideGenerationPrompt),
                       user_prompt = prompt\<rparr>
                 in ([req], (case request_slides e req of
                               Inr parsedContent \<Rightarrow> Inr (Generated parsedContent)
                             | Inl err \<Rightarrow> Inl (rethrow err))))))"

section \<open>The persistence pipeline (\<^verbatim>\<open>lib/firestore.ts\<close>)\<close>

subsection \<open>The browser and the document database\<close>

text \<open>
  A stored string is the empty string, or it is represented by what
  \<^verbatim>\<open>JSON.parse\<close> makes of it: a value, or nothing when it throws. The empty
  string is apart because it is falsy: the code reads a store with
  \<^verbatim>\<open>getItem(key) || default\<close>, which parses the default in its place.
  \<^verbatim>\<open>JSON.stringify\<close> followed by \<^verbatim>\<open>JSON.parse\<close> turns a
  \<^verbatim>\<open>Date\<close> into its ISO string and keeps JSON data as it is; the code stores no
  other host object.
\<close>

datatype item = EmptyString | Unparsable | Parsed jsval

fun stored_form :: "(nat \<Rightarrow> string) \<Rightarrow> jsval \<Rightarrow> jsval" where
  "stored_form fmt (DateObj t) = Str (fmt t)"
| "stored_form fmt (Arr xs) = Arr (map (stored_form fmt) xs)"
| "stored_form fmt (Obj kvs) = Obj (map (\<lambda>(k, v). (k, stored_form fmt v)) kvs)"
| "stored_form fmt v = v"

fun plain_json :: "jsval \<Rightarrow> bool" where
  "plain_json (DateObj t) = False"
| "plain_json (Timestamp t) = False"
| "plain_json (FieldValue f) = False"
| "plain_json (Arr xs) = list_all plain_json xs"
| "plain_json (Obj kvs) = list_all (\<lambda>(k, v). plain_json v) kvs"
| "plain_json v = True"

text \<open>
  The state of the browser: whether \<^verbatim>\<open>window\<close> is defined, the two stores
  (\<^verbatim>\<open>sessionStorage\<close> with its keys in order), whether
  \<^verbatim>\<open>localStorage.setItem\<close> throws (the quota is exceeded), the clock in
  milliseconds, \<^verbatim>\<open>Date.prototype.toISOString\<close>, and the requests sent to the
  document database so far.
\<close>

datatype db_op =
    AddDoc string jsval
  | UpdateDoc string string jsval
  | GetDoc string string
  | GetDocs string

record world =
  window_defined :: bool
  localStorage :: "(string \<times> item) list"
  sessionStorage :: "(string \<times> item) list"
  setItem_throws :: bool
  now :: nat
  toISOString :: "nat \<Rightarrow> string"
  db_log :: "db_op list"

text \<open>
  A request to the document database settles with a value or an error, or it is still
  pending when the timer it races against fires. \<^verbatim>\<open>getDocs\<close> in
  \<^verbatim>\<open>getUserProjects\<close> and \<^verbatim>\<open>updateDoc\<close> in
  \<^verbatim>\<open>updateProject\<close> race against no timer: the model takes them as settled.
\<close>

datatype 'a settled = Fulfilled 'a | Failed js_error | Pending

record backend =
  addDoc :: "string \<Rightarrow> jsval \<Rightarrow> string settled"
  updateDoc :: "string \<Rightarrow> string \<Rightarrow> jsval \<Rightarrow> js_error + unit"
  getDoc :: "string \<Rightarrow> string \<Rightarrow> jsval option settled"
  getDocs :: "string \<Rightarrow> js_error + (string \<times> jsval) list"

definition race :: "'a settled \<Rightarrow> string \<Rightarrow> js_error + 'a" where
  "race p timeout_message =
     (case p of Fulfilled x \<Rightarrow> Inr x | Failed err \<Rightarrow> Inl err
      | Pending \<Rightarrow> Inl (Error timeout_message))"

text \<open>\<^verbatim>\<open>JSON.parse(localStorage.getItem('local_projects') || '[]')\<close> where the
  result is used as an array: the empty array for a missing key and for a stored empty
  string, nothing when the parse throws or the value is no array.\<close>

definition local_list :: "world \<Rightarrow> jsval list option" where
  "local_list w =
     (case map_of (localStorage w) ''local_projects'' of
        None \<Rightarrow> Some []
      | Some EmptyString \<Rightarrow> Some []
      | Some Unparsable \<Rightarrow> None
      | Some (Parsed (Arr xs)) \<Rightarrow> Some xs
      | Some (Parsed v) \<Rightarrow> None)"

subsection \<open>\<^verbatim>\<open>createProject\<close>\<close>

definition slideCount_of :: "jsval \<Rightarrow> jsval" where
  "slideCount_of slideData = or_else (opt_length (js_get slideData ''slides'')) (Num 0)"

definition projectData :: "string \<Rightarrow> string \<Rightarrow> string \<Rightarrow> jsval \<Rightarrow> string \<Rightarrow> jsval" where
  "projectData userId title prompt slideData type =
     Obj [(''userId'', Str userId), (''title'', Str title),
          (''description'', or_else (js_get slideData ''description'') (Str [])),
          (''prompt'', Str prompt), (''slideData'', slideData),
          (''slideCount'', slideCount_of slideData), (''type'', Str type),
          (''createdAt'', FieldValue ''serverTimestamp''),
          (''updatedAt'', FieldValue ''serverTimestamp'')]"

definition fallbackId :: "world \<Rightarrow> string" where
  "fallbackId w = ''local_'' @ string_of_nat (now w)"

definition localProject :: "world \<Rightarrow> string \<Rightarrow> string \<Rightarrow> string \<Rightarrow> jsval \<Rightarrow> string \<Rightarrow> jsval" where
  "localProject w userId title prompt slideData type =
     Obj [(''id'', Str (fallbackId w)), (''userId'', Str userId), (''title'', Str title),
          (''description'', or_else (js_get slideData ''description'') (Str [])),
          (''prompt'', Str prompt), (''slideData'', slideData),
          (''slideCount'', slideCount_of slideData), (''type'', Str type),
          (''createdAt'', DateObj (now w)), (''updatedAt'', DateObj (now w)),
          (''isLocal'', Bool True)]"

text \<open>The last two statements of the \<^verbatim>\<open>catch\<close> block.\<close>

definition create_failure :: "js_error \<Rightarrow> js_error" where
  "create_failure err =
     (if code err = Some ''unavailable'' \<or> str_includes (message err) ''offline''
        then Error (''Cannot create project while offline. ''
               @ ''Please check your internet connection.'')
      else Error ''Failed to create project. Please try again.'')"

text \<open>The inner \<^verbatim>\<open>try\<close> of the fallback: the new list of local projects when it
  could be saved.\<close>

definition save_locally :: "world \<Rightarrow> jsval \<Rightarrow> world option" where
  "save_locally w p =
     (case local_list w of
        None \<Rightarrow> None
      | Some existingProjects \<Rightarrow>
          (if setItem_throws w then None
           else Some (w\<lparr>localStorage := AList.update ''local_projects''
                  (Parsed (stored_form (toISOString w) (Arr (existingProjects @ [p]))))
                  (localStorage w)\<rparr>)))"

definition createProject ::
    "backend \<Rightarrow> world \<Rightarrow> string \<Rightarrow> string \<Rightarrow> string \<Rightarrow> jsval \<Rightarrow> string
      \<Rightarrow> (js_error + string) \<times> world" where
  "createProject b w userId title prompt slideData type =
     (if slideData = Null
        then (if window_defined w then (Inl (TypeError_null ''description''), w)
              else (Inl (Error ''Failed to create project. Please try again.''), w))
      else
        (let data = projectData userId title prompt slideData type;
             w1 = w\<lparr>db_log := db_log w @ [AddDoc ''projects'' data]\<rparr>
         in (case race (addDoc b ''projects'' data) ''Firestore timeout after 15 seconds'' of
               Inr docId \<Rightarrow>
                 (Inr docId,
                  w1\<lparr>db_log := db_log w1 @ [UpdateDoc ''users'' userId
                        (Obj [(''projectCount'', FieldValue ''increment(1)'')])]\<rparr>)
             | Inl err \<Rightarrow>
                 (if window_defined w1
                    then (case save_locally w1 (localProject w1 userId title prompt slideData type) of
                            Some w2 \<Rightarrow> (Inr (fallbackId w1), w2)
                          | None \<Rightarrow> (Inl (create_failure err), w1))
                  else (Inl (create_failure err), w1)))))"

subsection \<open>\<^verbatim>\<open>getProject\<close>\<close>

text \<open>\<^verbatim>\<open>localProjects.find((p) => p.id === projectId)\<close>; reading \<^verbatim>\<open>p.id\<close>
  of a \<^verbatim>\<open>null\<close> element throws.\<close>

fun find_project :: "string \<Rightarrow> jsval list \<Rightarrow> js_error + jsval option" where
  "find_project projectId [] = Inr None"
| "find_project projectId (p # ps) =
     (if p = Null then Inl (TypeError_null ''id'')
      else if js_get p ''id'' = Some (Str projectId) then Inr (Some p)
      else find_project projectId ps)"

text \<open>The first block of \<^verbatim>\<open>getProject\<close>: the local project it returns, if any. An
  exception in the block is caught and logged, and the function goes on.\<close>

definition local_lookup :: "world \<Rightarrow> string \<Rightarrow> jsval option" where
  "local_lookup w projectId =
     (if startsWith projectId ''local_'' \<and> window_defined w
        then (case local_list w of
                None \<Rightarrow> None
              | Some localProjects \<Rightarrow>
                  (case find_project projectId localProjects of
                     Inr (Some p) \<Rightarrow> (if truthy (Some p) then Some p else None)
                   | _ \<Rightarrow> None))
      else None)"

definition getProject :: "backend \<Rightarrow> world \<Rightarrow> string \<Rightarrow> js_error + jsval option" where
  "getProject b w projectId =
     (case local_lookup w projectId of
        Some p \<Rightarrow> Inr (Some p)
      | None \<Rightarrow>
          (case race (getDoc b ''projects'' projectId) ''Firestore timeout'' of
             Inr (Some data) \<Rightarrow> Inr (Some (Obj (assign [(''id'', Str projectId)] (own_props data))))
           | Inr None \<Rightarrow> Inr None
           | Inl err \<Rightarrow> Inl (Error ''Failed to get project'')))"

subsection \<open>\<^verbatim>\<open>updateProject\<close>\<close>

definition updateProject ::
    "backend \<Rightarrow> world \<Rightarrow> string \<Rightarrow> jsval \<Rightarrow> (js_error + unit) \<times> world" where
  "updateProject b w projectId updates =
     (let data = Obj (assign (assign [] (own_props updates))
                   [(''updatedAt'', FieldValue ''serverTimestamp'')]);
          w1 = w\<lparr>db_log := db_log w @ [UpdateDoc ''projects'' projectId data]\<rparr>
      in (case updateDoc b ''projects'' projectId data of
            Inr u \<Rightarrow> (Inr (), w1)
          | Inl err \<Rightarrow> (Inl (Error ''Failed to update project''), w1)))"

subsection \<open>\<^verbatim>\<open>getUserProjects\<close>\<close>

definition getUserProjects :: "backend \<Rightarrow> string \<Rightarrow> js_error + jsval list" where
  "getUserProjects b userId =
     (case getDocs b userId of
        Inr docs \<Rightarrow> Inr (map (\<lambda>(docId, data). Obj (assign [(''id'', Str docId)] (own_props data))) docs)
      | Inl err \<Rightarrow>
          (if code err = Some ''unavailable'' \<or> str_includes (message err) ''offline''
             then Inr []
           else Inl (Error ''Failed to get projects. Please check your internet connection.'')))"

section \<open>The project list of the dashboard (\<^verbatim>\<open>app/dashboard/page.tsx\<close>, \<^verbatim>\<open>loadProjects\<close>)\<close>

text \<open>\<^verbatim>\<open>v?.k\<close>, for \<open>v\<close> possibly \<^verbatim>\<open>undefined\<close>.\<close>

fun opt_get :: "jsval option \<Rightarrow> string \<Rightarrow> jsval option" where
  "opt_get None k = None"
| "opt_get (Some Null) k = None"
| "opt_get (Some v) k = js_get v k"

text \<open>\<^verbatim>\<open>localProjects.filter((p) => p.userId === uid)\<close>; a \<^verbatim>\<open>null\<close>
  element throws, and the surrounding \<^verbatim>\<open>try\<close> then adds no local project.\<close>

definition userLocalProjects :: "world \<Rightarrow> string \<Rightarrow> jsval list" where
  "userLocalProjects w uid =
     (case local_list w of
        None \<Rightarrow> []
      | Some localProjects \<Rightarrow>
          (if Null \<in> set localProjects then []
           else filter (\<lambda>p. js_get p ''userId'' = Some (Str uid)) localProjects))"

text \<open>The body of the loop over the \<^verbatim>\<open>temp_project_\<close> keys of the session store:
  the project it pushes, if any. A stored empty string is read as
  \<^verbatim>\<open>JSON.parse('{}')\<close>, an object without \<^verbatim>\<open>userId\<close>, so nothing is pushed.\<close>

definition formattedTempProject :: "world \<Rightarrow> jsval \<Rightarrow> jsval" where
  "formattedTempProject w tempProject =
     Obj (assign (assign [] (own_props tempProject))
       [(''createdAt'', DateObj (now w)), (''updatedAt'', DateObj (now w)),
        (''slideCount'', or_else
            (opt_length (opt_get (opt_get (Some tempProject) ''slideData'') ''slides'')) (Num 0)),
        (''isTemporary'', Bool True)])"

definition tempProject_of :: "world \<Rightarrow> string \<Rightarrow> string \<Rightarrow> jsval option" where
  "tempProject_of w uid key =
     (case map_of (sessionStorage w) key of
        Some (Parsed tempProject) \<Rightarrow>
          (if tempProject \<noteq> Null \<and> js_get tempProject ''userId'' = Some (Str uid)
             then Some (formattedTempProject w tempProject) else None)
      | Some EmptyString \<Rightarrow> None
      | Some Unparsable \<Rightarrow> None
      | None \<Rightarrow> None)"

definition userTempProjects :: "world \<Rightarrow> string \<Rightarrow> jsval list" where
  "userTempProjects w uid =
     (let sessionKeys = map fst (sessionStorage w);
          tempProjectKeys = filter (\<lambda>key. startsWith key ''temp_project_'') sessionKeys
      in List.map_filter (tempProject_of w uid) tempProjectKeys)"

text \<open>The instant the comparator gives a project: that of a \<^verbatim>\<open>Date\<close>, that of an
  object with a \<^verbatim>\<open>toDate\<close> method, and \<^verbatim>\<open>new Date(0)\<close> otherwise.\<close>

definition sort_instant :: "jsval \<Rightarrow> nat" where
  "sort_instant p =
     (case js_get p ''createdAt'' of
        Some (DateObj t) \<Rightarrow> t
      | Some (Timestamp t) \<Rightarrow> t
      | _ \<Rightarrow> 0)"

text \<open>\<^verbatim>\<open>Array.prototype.sort\<close> is stable; the comparator
  \<^verbatim>\<open>dateB.getTime() - dateA.getTime()\<close> puts the later instant first.\<close>

definition loadProjects :: "backend \<Rightarrow> world \<Rightarrow> string \<Rightarrow> jsval list" where
  "loadProjects b w uid =
     (let userProjects = (case getUserProjects b uid of Inr ps \<Rightarrow> ps | Inl firestoreError \<Rightarrow> []);
          allProjects =
            (if window_defined w
               then userProjects @ userLocalProjects w uid @ userTempProjects w uid
             else userProjects)
      in sort_key (\<lambda>p. - int (sort_instant p)) allProjects)"

section \<open>The slide renderer (\<^verbatim>\<open>components/SlideViewer.tsx\<close>, \<^verbatim>\<open>renderSlide\<close>)\<close>

text \<open>A rendered element: its tag, its attributes (the class name among them), its inline
  style and its children.\<close>

datatype node =
    Element string "(string \<times> string) list" "(string \<times> string) list" "node list"
  | Text string

text \<open>\<^verbatim>\<open>a || b\<close> on optional strings: the empty string is falsy.\<close>

definition str_or :: "string option \<Rightarrow> string \<Rightarrow> string" where
  "str_or a b = (case a of None \<Rightarrow> b | Some s \<Rightarrow> if s = [] then b else s)"

definition styling_of :: "slide \<Rightarrow> styling" where
  "styling_of sl = (case s_styling sl of Some st \<Rightarrow> st | None \<Rightarrow> no_styling)"

definition getBackgroundStyle :: "theme \<Rightarrow> slide \<Rightarrow> (string \<times> string) list" where
  "getBackgroundStyle th sl =
     (let baseStyle =
            [(''fontFamily'', str_or (bodyFont th) (if fontFamily th = [] then ''Inter''
                                                     else fontFamily th)),
             (''color'', str_or (titleColor (styling_of sl)) (textColor th))]
      in if s_backgroundStyle sl = Some ''gradient''
           then baseStyle @ [(''background'', ''linear-gradient(135deg, ''
                  @ str_or (gradientStart th) (primaryColor th) @ '', ''
                  @ str_or (gradientEnd th) (secondaryColor th) @ '')'')]
         else if s_backgroundStyle sl = Some ''image''
           then (if str_or (s_imageUrl sl) [] \<noteq> []
                   then baseStyle @ [(''backgroundImage'', ''url('' @ str_or (s_imageUrl sl) [] @ '')''),
                          (''backgroundSize'', ''cover''), (''backgroundPosition'', ''center''),
                          (''position'', ''relative'')]
                 else baseStyle)
         else if s_backgroundStyle sl = Some ''split-color''
           then baseStyle @ [(''background'', ''linear-gradient(90deg, '' @ primaryColor th
                  @ '' 50%, '' @ backgroundColor th @ '' 50%)'')]
         else baseStyle @ [(''backgroundColor'', backgroundColor th)])"

definition getOverlayStyle :: "slide \<Rightarrow> (string \<times> string) list" where
  "getOverlayStyle sl =
     (if s_backgroundStyle sl = Some ''image'' \<and> str_or (overlay (styling_of sl)) [] \<noteq> []
        then [(''position'', ''absolute''), (''top'', ''0''), (''left'', ''0''), (''right'', ''0''),
              (''bottom'', ''0''),
              (''backgroundColor'',
                 (if overlay (styling_of sl) = Some ''dark'' then ''rgba(0,0,0,0.6)''
                  else ''rgba(255,255,255,0.3)'')),
              (''zIndex'', ''1'')]
      else [])"

definition sizeMap :: "(string \<times> string) list" where
  "sizeMap = [(''xs'', ''text-xs''), (''sm'', ''text-sm''), (''base'', ''text-base''),
     (''lg'', ''text-lg''), (''xl'', ''text-xl''), (''2xl'', ''text-2xl''), (''3xl'', ''text-3xl''),
     (''4xl'', ''text-4xl''), (''5xl'', ''text-5xl''), (''6xl'', ''text-6xl'')]"

definition getTextSizeClass :: "string \<Rightarrow> string" where
  "getTextSizeClass sz = (case map_of sizeMap sz of Some c \<Rightarrow> c | None \<Rightarrow> ''text-2xl'')"

definition contentStyle :: "(string \<times> string) list" where
  "contentStyle = [(''position'', ''relative''), (''zIndex'', ''2''), (''height'', ''100%'')]"

text \<open>The two elements every branch starts with, around the branch's own elements.\<close>

definition slide_frame :: "theme \<Rightarrow> slide \<Rightarrow> node list \<Rightarrow> node" where
  "slide_frame th sl inner =
     Element ''div'' [(''className'', ''relative h-full'')] (getBackgroundStyle th sl)
       (Element ''div'' [] (getOverlayStyle sl) [] # inner)"

definition heading_style :: "theme \<Rightarrow> slide \<Rightarrow> (string \<times> string) list" where
  "heading_style th sl =
     [(''color'', str_or (titleColor (styling_of sl)) (primaryColor th)),
      (''fontFamily'', str_or (headingFont th) (fontFamily th))]"

text \<open>\<^verbatim>\<open>slide.content && (...)\<close>: an array is truthy even when empty, a string
  when it is not empty.\<close>

definition content_truthy :: "slide_content \<Rightarrow> bool" where
  "content_truthy c =
     (case c of ContentList xs \<Rightarrow> True | ContentString s \<Rightarrow> s \<noteq> [] | ContentUndefined \<Rightarrow> False)"

text \<open>The bullet list of the split and content branches, with the classes that differ
  between the two.\<close>

definition bullets :: "theme \<Rightarrow> string \<Rightarrow> string \<Rightarrow> slide_content \<Rightarrow> node list" where
  "bullets th list_class dot_class c =
     (case c of
        ContentList xs \<Rightarrow>
          [Element ''ul'' [(''className'', list_class)] []
             (map (\<lambda>item.
                Element ''li'' [(''className'', ''flex items-start'')] []
                  [Element ''span'' [(''className'', dot_class)]
                     [(''backgroundColor'', str_or (accentColor th) (secondaryColor th))] [],
                   Element ''span'' [] [] [Text item]]) xs)]
      | ContentString s \<Rightarrow> [Element ''p'' [] [] [Text s]]
      | ContentUndefined \<Rightarrow> [Element ''p'' [] [] []])"

definition render_hero :: "theme \<Rightarrow> slide \<Rightarrow> node" where
  "render_hero th sl =
     (let st = styling_of sl;
          shadow1 = (if s_backgroundStyle sl = Some ''image''
                     then ''2px 2px 4px rgba(0,0,0,0.5)'' else ''none'');
          shadow2 = (if s_backgroundStyle sl = Some ''image''
                     then ''1px 1px 2px rgba(0,0,0,0.5)'' else ''none'')
      in slide_frame th sl
        [Element ''div''
           [(''className'', ''flex flex-col items-center justify-center h-full text-center p-8 ''
               @ (if textAlign st = Some ''left'' then ''text-left''
                  else if textAlign st = Some ''right'' then ''text-right'' else ''text-center''))]
           contentStyle
           (Element ''h1''
              [(''className'', getTextSizeClass (str_or (titleSize st) ''5xl'') @ '' font-''
                  @ str_or (titleWeight st) ''bold'' @ '' mb-6'')]
              (heading_style th sl @ [(''textShadow'', shadow1)])
              [Text (s_title sl)]
            # (if str_or (s_subtitle sl) [] \<noteq> []
               then [Element ''p''
                       [(''className'', getTextSizeClass (str_or (subtitleSize st) ''2xl'')
                           @ '' opacity-90'')]
                       [(''color'', str_or (titleColor st) (textColor th)),
                        (''textShadow'', shadow2)]
                       [Text (str_or (s_subtitle sl) [])]]
               else []))])"

definition render_split :: "theme \<Rightarrow> slide \<Rightarrow> node" where
  "render_split th sl =
     (let st = styling_of sl
      in slide_frame th sl
        [Element ''div'' [(''className'', ''flex h-full'')] contentStyle
           [Element ''div'' [(''className'', ''w-1/2 p-8 flex flex-col justify-center'')] []
              (Element ''h2''
                 [(''className'', getTextSizeClass (str_or (titleSize st) ''4xl'')
                     @ '' font-bold mb-6'')]
                 (heading_style th sl) [Text (s_title sl)]
               # (if content_truthy (s_content sl)
                  then [Element ''div''
                          [(''className'', ''space-y-3 ''
                              @ getTextSizeClass (str_or (contentSize st) ''lg''))] []
                          (bullets th ''space-y-3''
                             ''w-2 h-2 rounded-full mr-3 mt-3 flex-shrink-0'' (s_content sl))]
                  else [])),
            Element ''div'' [(''className'', ''w-1/2 relative'')] []
              (if str_or (s_imageUrl sl) [] \<noteq> []
               then [Element ''img''
                       [(''src'', str_or (s_imageUrl sl) []),
                        (''alt'', str_or (s_imageDescription sl) (s_title sl)),
                        (''className'', ''w-full h-full object-cover'')] [] []]
               else [])]])"

text \<open>\<^verbatim>\<open>slide.author && (<cite ...>)\<close>: nothing is rendered for a missing or an
  empty author. The cite starts with an em dash and a space.\<close>

definition attribution :: "theme \<Rightarrow> slide \<Rightarrow> node list" where
  "attribution th sl =
     (case s_author sl of
        None \<Rightarrow> []
      | Some a \<Rightarrow>
          (if a = [] then []
           else [Element ''cite''
                   [(''className'', getTextSizeClass (str_or (subtitleSize (styling_of sl)) ''xl'')
                       @ '' opacity-80 not-italic'')]
                   [(''color'', textColor th)]
                   [Text [CHR 0xE2, CHR 0x80, CHR 0x94, CHR '' ''], Text a]]))"

text \<open>What the braces inside the block quote evaluate to: the list joined with spaces, the
  string itself, or nothing to render.\<close>

definition quote_body :: "slide_content \<Rightarrow> node list" where
  "quote_body c =
     (case c of
        ContentList xs \<Rightarrow> [Text (join xs '' '')]
      | ContentString s \<Rightarrow> [Text s]
      | ContentUndefined \<Rightarrow> [])"

definition render_quote :: "theme \<Rightarrow> slide \<Rightarrow> node" where
  "render_quote th sl =
     slide_frame th sl
       [Element ''div''
          [(''className'', ''flex flex-col items-center justify-center h-full text-center p-8'')]
          contentStyle
          [Element ''div'' [(''className'', ''max-w-4xl'')] []
            (Element ''blockquote''
               [(''className'', getTextSizeClass (str_or (titleSize (styling_of sl)) ''4xl'')
                   @ '' italic mb-8 leading-relaxed'')]
               (heading_style th sl)
               ([Text [CHR 0x22]] @ quote_body (s_content sl) @ [Text [CHR 0x22]])
             # attribution th sl)]]"

text \<open>A statistic is split at its spaces: the first word is the headline number, the
  rest, joined again, the label.\<close>

definition stat_card :: "theme \<Rightarrow> string \<Rightarrow> node" where
  "stat_card th item =
     Element ''div'' [(''className'', ''text-center'')] []
       [Element ''div'' [(''className'', ''text-6xl font-bold mb-4'')]
          [(''color'', str_or (accentColor th) (primaryColor th))]
          [Text (case split_space item of [] \<Rightarrow> [] | w # ws \<Rightarrow> w)],
        Element ''div'' [(''className'', ''text-lg opacity-80'')] []
          [Text (join (drop 1 (split_space item)) '' '')]]"

definition render_stats :: "theme \<Rightarrow> slide \<Rightarrow> node" where
  "render_stats th sl =
     slide_frame th sl
       [Element ''div'' [(''className'', ''h-full p-8'')] contentStyle
          (Element ''h2''
             [(''className'', getTextSizeClass (str_or (titleSize (styling_of sl)) ''4xl'')
                 @ '' font-bold mb-8 text-center'')]
             (heading_style th sl) [Text (s_title sl)]
           # (case s_content sl of
                ContentList xs \<Rightarrow>
                  [Element ''div''
                     [(''className'', ''grid grid-cols-1 md:grid-cols-2 lg:grid-cols-3 gap-8 h-3/4'')]
                     [] (map (stat_card th) xs)]
              | _ \<Rightarrow> []))]"

definition render_image_focus :: "theme \<Rightarrow> slide \<Rightarrow> node" where
  "render_image_focus th sl =
     (let st = styling_of sl
      in slide_frame th sl
        [Element ''div'' [(''className'', ''absolute inset-0 flex items-end p-8'')]
           [(''zIndex'', ''2'')]
           [Element ''div'' [(''className'', ''w-full'')] []
              (Element ''h2''
                 [(''className'', getTextSizeClass (str_or (titleSize st) ''4xl'')
                     @ '' font-bold mb-4'')]
                 [(''color'', ''white''),
                  (''fontFamily'', str_or (headingFont th) (fontFamily th)),
                  (''textShadow'', ''2px 2px 4px rgba(0,0,0,0.8)'')]
                 [Text (s_title sl)]
               # (if str_or (s_subtitle sl) [] \<noteq> []
                  then [Element ''p''
                          [(''className'', getTextSizeClass (str_or (subtitleSize st) ''xl'')
                              @ '' opacity-90'')]
                          [(''color'', ''white''),
                           (''textShadow'', ''1px 1px 2px rgba(0,0,0,0.8)'')]
                          [Text (str_or (s_subtitle sl) [])]]
                  else []))]])"

definition render_content :: "theme \<Rightarrow> slide \<Rightarrow> node" where
  "render_content th sl =
     (let st = styling_of sl
      in slide_frame th sl
        [Element ''div'' [(''className'', ''h-full p-8 flex flex-col'')] contentStyle
           (Element ''h2''
              [(''className'', getTextSizeClass (str_or (titleSize st) ''4xl'')
                  @ '' font-bold mb-8'')]
              (heading_style th sl) [Text (s_title sl)]
            # (if content_truthy (s_content sl)
               then [Element ''div''
                       [(''className'', ''space-y-4 ''
                           @ getTextSizeClass (str_or (contentSize st) ''lg'') @ '' flex-1'')] []
                       (bullets th ''space-y-4''
                          ''w-3 h-3 rounded-full mr-4 mt-2 flex-shrink-0'' (s_content sl))]
               else []))])"

text \<open>The \<^verbatim>\<open>switch (slide.type)\<close>; the content branch is also the default.\<close>

definition renderSlide :: "theme \<Rightarrow> slide \<Rightarrow> node" where
  "renderSlide th sl =
     (if s_type sl = ''hero'' \<or> s_type sl = ''title'' then render_hero th sl
      else if s_type sl = ''split'' then render_split th sl
      else if s_type sl = ''quote'' then render_quote th sl
      else if s_type sl = ''stats'' then render_stats th sl
      else if s_type sl = ''image-focus'' then render_image_focus th sl
      else render_content th sl)"

text \<open>Reading a rendered tree: the elements with a given tag, and the text of a node.\<close>

fun elements_with_tag :: "string \<Rightarrow> node \<Rightarrow> node list" where
  "elements_with_tag tg (Text t) = []"
| "elements_with_tag tg (Element tag attrs st children) =
     (if tag = tg then [Element tag attrs st children] else [])
       @ concat (map (elements_with_tag tg) children)"

fun text_of :: "node \<Rightarrow> string" where
  "text_of (Text t) = t"
| "text_of (Element tag attrs st children) = concat (map text_of children)"

section \<open>What the specification says, and example inputs\<close>

text \<open>
  The specification's failures of a remote call: the deadline passes, the request is
  rejected (network or provider error), the answer has no content or does not parse, or
  the parsed value lacks a title or an array of slides.
\<close>

definition remote_call_fails :: "env \<Rightarrow> chat_request \<Rightarrow> bool" where
  "remote_call_fails e req =
     (case service e req of
        TimedOut \<Rightarrow> True
      | Rejected err \<Rightarrow> True
      | Completed None \<Rightarrow> True
      | Completed (Some content) \<Rightarrow>
          (case JSON_parse e content of
             None \<Rightarrow> True
           | Some parsed \<Rightarrow> js_get parsed ''title'' = None \<or> \<not> isArray (js_get parsed ''slides'')))"

text \<open>The specification's defaults for the slide at position \<open>i\<close>, counted from 0.\<close>

definition slide_defaults :: "nat \<Rightarrow> (string \<times> jsval) list" where
  "slide_defaults i =
     [(''id'', Num (int i + 1)), (''type'', Str ''content''),
      (''title'', Str (''Slide '' @ string_of_nat (i + 1))), (''subtitle'', Str []),
      (''content'', Arr []), (''speakerNotes'', Str []), (''animation'', Str ''fadeIn'')]"

text \<open>A slide that the normalization can read and spread: any value but
  \<^verbatim>\<open>null\<close>. An object has each of its keys once.\<close>

fun spreadable :: "jsval \<Rightarrow> bool" where
  "spreadable Null = False"
| "spreadable (Obj kvs) = distinct (map fst kvs)"
| "spreadable v = True"

text \<open>
  The messages of the errors that reach the caller of \<open>generateSlides\<close>: seven fixed
  ones, and the generic one that wraps the message of the failure. The message reported
  for a failure is chosen by the first test that succeeds: three on words in the failure's
  message, four on its status.
\<close>

definition timeout_message :: string where
  "timeout_message = ''OpenAI request timed out. Please try again with a shorter prompt ''
     @ ''or check your internet connection.''"

definition network_message :: string where
  "network_message = ''Network error connecting to OpenAI. Please check your internet connection.''"

definition format_message :: string where
  "format_message = ''OpenAI returned invalid format. Please try rephrasing your prompt.''"

definition key_message :: string where
  "key_message = ''Invalid OpenAI API key. Please check your API key and try again.''"

definition rate_message :: string where
  "rate_message = ''OpenAI rate limit exceeded. Please wait a moment and try again.''"

definition service_message :: string where
  "service_message = ''OpenAI service error. Please try again in a few minutes.''"

definition request_message :: string where
  "request_message = ''Invalid request to OpenAI. Please try a different prompt.''"

definition generic_message :: "string \<Rightarrow> string" where
  "generic_message m = ''OpenAI API Error: '' @ (if m = [] then ''Unknown error occurred'' else m)
     @ ''. Please check your API key and try again.''"

definition reported_message :: "js_error \<Rightarrow> string" where
  "reported_message err =
     (if str_includes (message err) ''timeout'' then timeout_message
      else if str_includes (message err) ''network'' \<or> str_includes (message err) ''fetch''
        then network_message
      else if str_includes (message err) ''JSON'' \<or> str_includes (message err) ''parse''
        then format_message
      else if status err = Some 401 then key_message
      else if status err = Some 429 then rate_message
      else if status err = Some 500 then service_message
      else if status err = Some 400 then request_message
      else generic_message (message err))"

fun is_fulfilled :: "'a settled \<Rightarrow> bool" where
  "is_fulfilled (Fulfilled x) = True"
| "is_fulfilled p = False"

text \<open>The durable-local tier can be used: the code runs in a browser, the stored list
  parses to an array, and writing it back does not throw.\<close>

definition local_tier_usable :: "world \<Rightarrow> bool" where
  "local_tier_usable w = (window_defined w \<and> local_list w \<noteq> None \<and> \<not> setItem_throws w)"

subsection \<open>Example inputs\<close>

definition example_today :: today where
  "example_today = \<lparr>localeDate = ''11/14/2023'', longDate = ''Tuesday, November 14, 2023''\<rparr>"

definition timing_out_env :: env where
  "timing_out_env = \<lparr>service = (\<lambda>req. TimedOut), JSON_parse = (\<lambda>s. None), date = example_today\<rparr>"

definition example_slides :: "jsval list" where
  "example_slides =
     [Obj [(''title'', Str ''Welcome''), (''layout'', Str ''center'')],
      Obj [(''id'', Num 7), (''content'', Arr [Str ''One'', Str ''Two''])],
      Num 5]"

text \<open>Environments in which the service answers with a JSON text, which
  \<^verbatim>\<open>JSON.parse\<close> turns into the value written next to it, and environments in
  which the service rejects the request.\<close>

definition dq :: string where
  "dq = [CHR 0x22]"

definition answering_env :: "string \<Rightarrow> jsval \<Rightarrow> env" where
  "answering_env text v = \<lparr>service = (\<lambda>req. Completed (Some text)),
     JSON_parse = (\<lambda>s. if s = text then Some v else None), date = example_today\<rparr>"

definition rejecting_env :: "js_error \<Rightarrow> env" where
  "rejecting_env err = \<lparr>service = (\<lambda>req. Rejected err), JSON_parse = (\<lambda>s. None),
     date = example_today\<rparr>"

definition title_only_text :: string where
  "title_only_text = ''{'' @ dq @ ''title'' @ dq @ '':'' @ dq @ ''Deck'' @ dq @ ''}''"

definition title_only_response :: jsval where
  "title_only_response = Obj [(''title'', Str ''Deck'')]"

definition null_slide_text :: string where
  "null_slide_text = ''{'' @ dq @ ''title'' @ dq @ '':'' @ dq @ ''Deck'' @ dq @ '','' @ dq @ ''slides'' @ dq @ '':[{'' @ dq @ ''title'' @ dq @ '':'' @ dq @ ''Welcome'' @ dq @ ''},null]}''"

definition null_slide_response :: jsval where
  "null_slide_response = Obj [(''title'', Str ''Deck''),
     (''slides'', Arr [Obj [(''title'', Str ''Welcome'')], Null])]"

definition empty_title_text :: string where
  "empty_title_text = ''{'' @ dq @ ''title'' @ dq @ '':'' @ dq @ dq @ '','' @ dq @ ''slides'' @ dq @ '':[{'' @ dq @ ''title'' @ dq @ '':'' @ dq @ ''Welcome'' @ dq @ ''}]}''"

definition empty_title_response :: jsval where
  "empty_title_response = Obj [(''title'', Str []),
     (''slides'', Arr [Obj [(''title'', Str ''Welcome'')]])]"

definition example_text :: string where
  "example_text = ''{'' @ dq @ ''title'' @ dq @ '':'' @ dq @ ''Deck'' @ dq @ '','' @ dq @ ''slides'' @ dq @ '':[{'' @ dq @ ''title'' @ dq @ '':'' @ dq @ ''Welcome'' @ dq @ '','' @ dq @ ''layout'' @ dq @ '':'' @ dq @ ''center'' @ dq @ ''},{'' @ dq @ ''id'' @ dq @ '':7,'' @ dq @ ''content'' @ dq @ '':['' @ dq @ ''One'' @ dq @ '','' @ dq @ ''Two'' @ dq @ '']},5]}''"

definition example_response :: jsval where
  "example_response = Obj [(''title'', Str ''Deck''), (''slides'', Arr example_slides)]"

definition gateway_timeout_error :: js_error where
  "gateway_timeout_error = \<lparr>message = ''upstream request timeout'', status = Some 500,
     code = None\<rparr>"

definition rejected_key_error :: js_error where
  "rejected_key_error = \<lparr>message = ''Incorrect API key provided.'', status = Some 401,
     code = None\<rparr>"

definition unavailable_error :: js_error where
  "unavailable_error = \<lparr>message = ''Failed to get document because the client is offline.'',
     status = None, code = Some ''unavailable''\<rparr>"

definition permission_error :: js_error where
  "permission_error = \<lparr>message = ''Missing or insufficient permissions.'',
     status = None, code = Some ''permission-denied''\<rparr>"

definition failing_backend :: "js_error \<Rightarrow> backend" where
  "failing_backend err = \<lparr>addDoc = (\<lambda>c d. Failed err), updateDoc = (\<lambda>c i d. Inl err),
     getDoc = (\<lambda>c i. Failed err), getDocs = (\<lambda>u. Inl err)\<rparr>"

definition pending_backend :: backend where
  "pending_backend = \<lparr>addDoc = (\<lambda>c d. Pending), updateDoc = (\<lambda>c i d. Inl unavailable_error),
     getDoc = (\<lambda>c i. Pending), getDocs = (\<lambda>u. Inl unavailable_error)\<rparr>"

definition example_world :: world where
  "example_world = \<lparr>window_defined = True, localStorage = [], sessionStorage = [],
     setItem_throws = False, now = 1700000000000,
     toISOString = (\<lambda>t. ''2023-11-14T22:13:20.000Z''), db_log = []\<rparr>"

definition example_deck :: jsval where
  "example_deck = Obj [(''title'', Str ''Deck''), (''description'', Str ''About decks''),
     (''slides'', Arr [Obj [(''id'', Num 1), (''type'', Str ''hero''), (''title'', Str ''Deck'')]])]"

text \<open>One project of user \<open>u1\<close> in each tier: in the document database since
  September 2020, in the local store since November 2023 (as \<open>createProject\<close> stores it),
  and in the session store.\<close>

definition cloud_project :: jsval where
  "cloud_project = Obj [(''userId'', Str ''u1''), (''title'', Str ''Cloud deck''),
     (''createdAt'', Timestamp 1600000000000)]"

definition stored_local_project :: jsval where
  "stored_local_project = Obj [(''id'', Str ''local_1700000000000''), (''userId'', Str ''u1''),
     (''title'', Str ''Local deck''), (''createdAt'', Str ''2023-11-14T22:13:20.000Z'')]"

definition stored_temp_project :: jsval where
  "stored_temp_project = Obj [(''id'', Str ''temp_1750000000000''), (''userId'', Str ''u1''),
     (''title'', Str ''Pending deck'')]"

definition three_tier_backend :: backend where
  "three_tier_backend = \<lparr>addDoc = (\<lambda>c d. Failed unavailable_error),
     updateDoc = (\<lambda>c i d. Inl unavailable_error),
     getDoc = (\<lambda>c i. Failed unavailable_error),
     getDocs = (\<lambda>u. Inr [(''abc123'', cloud_project)])\<rparr>"

definition three_tier_world :: world where
  "three_tier_world = \<lparr>window_defined = True,
     localStorage = [(''local_projects'', Parsed (Arr [stored_local_project]))],
     sessionStorage = [(''temp_project_temp_1750000000000'', Parsed stored_temp_project)],
     setItem_throws = False, now = 1800000000000,
     toISOString = (\<lambda>t. ''2027-01-15T08:00:00.000Z''), db_log = []\<rparr>"

definition example_theme :: theme where
  "example_theme = \<lparr>primaryColor = ''#0891b2'', secondaryColor = ''#0f766e'',
     backgroundColor = ''#ffffff'', textColor = ''#1e293b'', fontFamily = ''Inter'',
     accentColor = None, gradientStart = None, gradientEnd = None, headingFont = None,
     bodyFont = None, mood = None\<rparr>"

definition quote_slide :: "slide_content \<Rightarrow> string option \<Rightarrow> slide" where
  "quote_slide c a = \<lparr>s_id = 1, s_type = ''quote'', s_title = ''Insight'', s_subtitle = None,
     s_content = c, s_speakerNotes = None, s_animation = None, s_author = a, s_layout = None,
     s_backgroundStyle = None, s_imageUrl = None, s_imageDescription = None,
     s_styling = None\<rparr>"

section \<open>Verified properties\<close>

subsection \<open>The fallback synthesizer\<close>

text \<open>
  Claim C8. For every prompt, the deck of the fallback synthesizer (presentation path) has
  as many slides as the content strategy selected for the classified intent has templates,
  and the slide at position \<open>i\<close> (from 0) has the id \<open>i + 1\<close>.
\<close>

theorem fallback_ids_and_length:
  "length (d_slides (generateFallbackSlides td prompt False))
     = length (generatePersonalizedContent (analyzePrompt prompt))
   \<and> (\<forall>i < length (d_slides (generateFallbackSlides td prompt False)).
         s_id (d_slides (generateFallbackSlides td prompt False) ! i) = i + 1)"
  by (simp add: generateFallbackSlides_def Let_def fallback_slide_def nth_enumerate_eq)

theorem fallback_ids_and_length_witness:
  "(6::nat) < length (d_slides (generateFallbackSlides example_today ''AI strategy'' False))
   \<and> length (d_slides (generateFallbackSlides example_today ''AI strategy'' False)) = 7
   \<and> s_id (d_slides (generateFallbackSlides example_today ''AI strategy'' False) ! 6) = 7"
proof -
  have len: "length (generatePersonalizedContent (analyzePrompt ''AI strategy'')) = 7"
    by code_simp
  from fallback_ids_and_length [of example_today "''AI strategy''"] len
  show ?thesis by simp
qed

text \<open>
  Claim C7, as stated: for the prompt "Create a presentation about sustainable business
  practices" the industry is "environment", the intent is "informational" and the deck has
  8 slides. The code finds "business" first and the word "about" selects the overview
  strategy, so the statement fails.
\<close>

theorem sustainable_business_scenario_counterexample:
  "\<not> (industry (analyzePrompt ''Create a presentation about sustainable business practices'')
         = ''environment''
      \<and> presentationType
           (analyzePrompt ''Create a presentation about sustainable business practices'')
         = ''informational''
      \<and> length (d_slides (generateFallbackSlides example_today
           ''Create a presentation about sustainable business practices'' False)) = 8)"
  by code_simp

text \<open>
  Claim C7, amended: for that prompt the industry is "business", the intent is "overview",
  the subject is "sustainable business practices", and the fallback synthesizer returns 7
  slides, the first of which is titled "Understanding sustainable business practices", a
  title that contains the subject.
\<close>

theorem sustainable_business_scenario:
  "industry (analyzePrompt ''Create a presentation about sustainable business practices'')
     = ''business''
   \<and> presentationType (analyzePrompt ''Create a presentation about sustainable business practices'')
     = ''overview''
   \<and> subject (analyzePrompt ''Create a presentation about sustainable business practices'')
     = ''sustainable business practices''
   \<and> length (d_slides (generateFallbackSlides td
        ''Create a presentation about sustainable business practices'' False)) = 7
   \<and> s_title (d_slides (generateFallbackSlides td
        ''Create a presentation about sustainable business practices'' False) ! 0)
     = ''Understanding sustainable business practices''
   \<and> str_includes
        (s_title (d_slides (generateFallbackSlides td
           ''Create a presentation about sustainable business practices'' False) ! 0))
        (subject (analyzePrompt ''Create a presentation about sustainable business practices''))"
  by code_simp

subsection \<open>The remote generation orchestrator\<close>

text \<open>
  Claim C10. For every key other than the demo key that is empty or does not start with
  "sk-", \<open>generateSlides\<close> ends with an error and has sent no request to the
  text-generation service, whatever the service would have answered.
\<close>

theorem invalid_key_fails_before_any_request:
  assumes "apiKey \<noteq> ''demo-key''" and "apiKey = [] \<or> \<not> startsWith apiKey ''sk-''"
  shows "fst (generateSlides e apiKey prompt isDayPlanner) = []
       \<and> (\<exists>err. snd (generateSlides e apiKey prompt isDayPlanner) = Inl err)"
  using assms by (auto simp: generateSlides_def createOpenAIClient_def)

theorem invalid_key_fails_before_any_request_witness:
  "''my-key'' \<noteq> ''demo-key'' \<and> \<not> startsWith ''my-key'' ''sk-''
   \<and> fst (generateSlides timing_out_env ''my-key'' ''Solar power'' False) = []
   \<and> (\<exists>err. snd (generateSlides timing_out_env ''my-key'' ''Solar power'' False) = Inl err)"
  using invalid_key_fails_before_any_request
          [of "''my-key''" timing_out_env "''Solar power''" False]
  by (simp add: startsWith_def)

lemma invalid_schema_is_rejected:
  assumes "js_get parsed ''title'' = None \<or> \<not> isArray (js_get parsed ''slides'')"
  shows "\<exists>err. validate_and_normalize parsed = Inl err"
  using assms by (auto simp: validate_and_normalize_def)

lemma request_slides_fails:
  assumes "remote_call_fails e req"
  shows "\<exists>err. request_slides e req = Inl err"
proof (cases "service e req")
  case (Completed c)
  show ?thesis
  proof (cases c)
    case None
    with Completed show ?thesis by (simp add: request_slides_def)
  next
    case (Some content)
    show ?thesis
    proof (cases "JSON_parse e content")
      case None
      with Completed Some show ?thesis by (simp add: request_slides_def)
    next
      case (Some parsed)
      with assms Completed \<open>c = Some content\<close>
      have "js_get parsed ''title'' = None \<or> \<not> isArray (js_get parsed ''slides'')"
        by (simp add: remote_call_fails_def)
      then obtain err where "validate_and_normalize parsed = Inl err"
        using invalid_schema_is_rejected by blast
      with Completed Some \<open>c = Some content\<close> show ?thesis
        by (simp add: request_slides_def)
    qed
  qed
next
  case (Rejected err)
  then show ?thesis by (simp add: request_slides_def)
next
  case TimedOut
  then show ?thesis by (simp add: request_slides_def)
qed

lemma generateSlides_with_client:
  assumes "apiKey \<noteq> ''demo-key''" and "apiKey \<noteq> []" and "startsWith apiKey ''sk-''"
  shows "generateSlides e apiKey prompt isDayPlanner =
     ([\<lparr>api_key = apiKey,
         system_prompt = (if isDayPlanner then DayPlannerPrompt else SlideGenerationPrompt),
         user_prompt = prompt\<rparr>],
      (case request_slides e \<lparr>api_key = apiKey,
              system_prompt = (if isDayPlanner then DayPlannerPrompt else SlideGenerationPrompt),
              user_prompt = prompt\<rparr> of
         Inr parsedContent \<Rightarrow> Inr (Generated parsedContent)
       | Inl err \<Rightarrow> Inl (rethrow err)))"
  using assms by (simp add: generateSlides_def createOpenAIClient_def Let_def)

lemma generateSlides_without_client:
  assumes "apiKey \<noteq> ''demo-key''" and "apiKey = [] \<or> \<not> startsWith apiKey ''sk-''"
  shows "\<exists>err. generateSlides e apiKey prompt isDayPlanner = ([], Inl err)"
  using assms by (auto simp: generateSlides_def createOpenAIClient_def)

lemma demo_key_uses_synthesizer:
  "generateSlides e ''demo-key'' prompt isDayPlanner
     = ([], Inr (Synthesized (generateFallbackSlides (date e) prompt isDayPlanner)))"
  by (simp add: generateSlides_def)

lemma rethrow_reported: "rethrow err = Error (reported_message err)"
  by (simp add: rethrow_def reported_message_def timeout_message_def network_message_def
        format_message_def key_message_def rate_message_def service_message_def
        request_message_def generic_message_def)

lemma reported_deadline:
  "reported_message (Error ''Request timeout after 45 seconds'') = timeout_message"
  by (simp add: reported_message_def Error_def)

lemma reported_no_content:
  "reported_message (Error ''No response from OpenAI'')
     = generic_message ''No response from OpenAI''"
  by (simp add: reported_message_def Error_def)

lemma reported_parse_failure:
  "reported_message (Error (''Failed to parse AI response as JSON. ''
       @ ''The AI may have returned invalid format.'')) = format_message"
  by (simp add: reported_message_def Error_def)

lemma reported_invalid_structure:
  "reported_message (Error ''Invalid response structure from OpenAI. Missing title or slides array.'')
     = generic_message ''Invalid response structure from OpenAI. Missing title or slides array.''"
  by (simp add: reported_message_def Error_def)

text \<open>
  Claim C1, as stated: a failed remote call reaches the caller as a typed error, one that
  keeps the kind of the failure. The errors are plain \<^verbatim>\<open>Error\<close> objects told
  apart by their message, and the message is chosen from words in the failure's message
  before its status is looked at: a rejection by the provider with status 500 whose message
  mentions a timeout reaches the caller as the very error of a passed deadline, and a
  response without a slides array reaches it as the generic error that asks to check the
  API key.
\<close>

theorem failure_kind_is_lost_counterexample:
  "status gateway_timeout_error = Some 500
   \<and> snd (generateSlides (rejecting_env gateway_timeout_error) ''sk-test'' ''Solar power'' False)
       = snd (generateSlides timing_out_env ''sk-test'' ''Solar power'' False)
   \<and> snd (generateSlides (answering_env title_only_text title_only_response)
            ''sk-test'' ''Solar power'' False)
       = Inl (Error (''OpenAI API Error: Invalid response structure from OpenAI. ''
                @ ''Missing title or slides array.. Please check your API key and try again.''))"
  by (simp add: generateSlides_def createOpenAIClient_def startsWith_def request_slides_def
        rejecting_env_def timing_out_env_def answering_env_def gateway_timeout_error_def
        title_only_response_def validate_and_normalize_def js_get_def rethrow_def Error_def
        title_only_text_def dq_def)

text \<open>
  Claim C1, amended. For every prompt and every key other than the demo key,
  \<open>generateSlides\<close> never returns the synthesizer's deck, and when the remote call fails
  (deadline, rejection, no content, parse failure, missing title or slides array) it ends
  with an error. For a key of the right format the error is an \<^verbatim>\<open>Error\<close> whose
  message is fixed by the failure: the timeout message for a passed deadline, the generic
  message around "No response from OpenAI" for an answer without content, the
  invalid-format message for an answer that does not parse, the generic message around
  "Invalid response structure ..." for a parsed object with a falsy title or without a
  slides array, and for a rejection the message chosen by the first test that succeeds
  among: its message contains "timeout"; contains "network" or "fetch"; contains "JSON" or
  "parse"; its status is 401, 429, 500, 400; otherwise the generic message around its own.
\<close>

theorem remote_failure_is_propagated:
  assumes "apiKey \<noteq> ''demo-key''"
  shows "(\<forall>d. snd (generateSlides e apiKey prompt isDayPlanner) \<noteq> Inr (Synthesized d))
   \<and> (remote_call_fails e \<lparr>api_key = apiKey,
          system_prompt = (if isDayPlanner then DayPlannerPrompt else SlideGenerationPrompt),
          user_prompt = prompt\<rparr>
        \<longrightarrow> (\<exists>err. snd (generateSlides e apiKey prompt isDayPlanner) = Inl err))
   \<and> (apiKey \<noteq> [] \<and> startsWith apiKey ''sk-'' \<longrightarrow>
        (case service e \<lparr>api_key = apiKey,
                system_prompt = (if isDayPlanner then DayPlannerPrompt else SlideGenerationPrompt),
                user_prompt = prompt\<rparr> of
           TimedOut \<Rightarrow>
             snd (generateSlides e apiKey prompt isDayPlanner) = Inl (Error timeout_message)
         | Rejected err \<Rightarrow>
             snd (generateSlides e apiKey prompt isDayPlanner)
               = Inl (Error (reported_message err))
         | Completed None \<Rightarrow>
             snd (generateSlides e apiKey prompt isDayPlanner)
               = Inl (Error (generic_message ''No response from OpenAI''))
         | Completed (Some content) \<Rightarrow>
             (if content = []
                then snd (generateSlides e apiKey prompt isDayPlanner)
                       = Inl (Error (generic_message ''No response from OpenAI''))
              else (case JSON_parse e content of
                      None \<Rightarrow>
                        snd (generateSlides e apiKey prompt isDayPlanner)
                          = Inl (Error format_message)
                    | Some parsed \<Rightarrow>
                        parsed \<noteq> Null
                          \<and> (\<not> truthy (js_get parsed ''title'')
                               \<or> \<not> isArray (js_get parsed ''slides''))
                        \<longrightarrow> snd (generateSlides e apiKey prompt isDayPlanner)
                              = Inl (Error (generic_message
                                  (''Invalid response structure from OpenAI. ''
                                     @ ''Missing title or slides array.'')))))))"
proof (cases "apiKey \<noteq> [] \<and> startsWith apiKey ''sk-''")
  case True
  define req where "req = \<lparr>api_key = apiKey,
     system_prompt = (if isDayPlanner then DayPlannerPrompt else SlideGenerationPrompt),
     user_prompt = prompt\<rparr>"
  define G where "G = snd (generateSlides e apiKey prompt isDayPlanner)"
  have res: "G = (case request_slides e req of
        Inr parsedContent \<Rightarrow> Inr (Generated parsedContent)
      | Inl err \<Rightarrow> Inl (Error (reported_message err)))"
    using generateSlides_with_client [of apiKey e prompt isDayPlanner, unfolded rethrow_reported]
      assms True
    by (simp add: req_def G_def)
  have never: "\<forall>d. G \<noteq> Inr (Synthesized d)"
    by (simp add: res split: sum.splits)
  have fails: "\<exists>err. G = Inl err" if "remote_call_fails e req"
    using request_slides_fails [OF that] by (auto simp: res)
  have kinds: "(case service e req of
           TimedOut \<Rightarrow> G = Inl (Error timeout_message)
         | Rejected err \<Rightarrow> G = Inl (Error (reported_message err))
         | Completed None \<Rightarrow> G = Inl (Error (generic_message ''No response from OpenAI''))
         | Completed (Some content) \<Rightarrow>
             (if content = []
                then G = Inl (Error (generic_message ''No response from OpenAI''))
              else (case JSON_parse e content of
                      None \<Rightarrow> G = Inl (Error format_message)
                    | Some parsed \<Rightarrow>
                        parsed \<noteq> Null
                          \<and> (\<not> truthy (js_get parsed ''title'')
                               \<or> \<not> isArray (js_get parsed ''slides''))
                        \<longrightarrow> G = Inl (Error (generic_message
                                  (''Invalid response structure from OpenAI. ''
                                     @ ''Missing title or slides array.''))))))"
  proof (cases "service e req")
    case TimedOut
    then show ?thesis by (simp add: res request_slides_def reported_deadline)
  next
    case (Rejected err)
    then show ?thesis by (simp add: res request_slides_def)
  next
    case (Completed c)
    show ?thesis
    proof (cases c)
      case None
      with Completed show ?thesis by (simp add: res request_slides_def reported_no_content)
    next
      case (Some content)
      show ?thesis
      proof (cases "content = []")
        case True
        with Completed Some show ?thesis
          by (simp add: res request_slides_def reported_no_content)
      next
        case nonempty: False
        show ?thesis
        proof (cases "JSON_parse e content")
          case None
          with Completed Some nonempty show ?thesis
            using reported_parse_failure by (simp add: res request_slides_def)
        next
          case parsed: (Some parsed)
          have "validate_and_normalize parsed
              = Inl (Error ''Invalid response structure from OpenAI. Missing title or slides array.'')"
            if "parsed \<noteq> Null"
              and "\<not> truthy (js_get parsed ''title'') \<or> \<not> isArray (js_get parsed ''slides'')"
            using that by (auto simp: validate_and_normalize_def)
          with Completed Some nonempty parsed show ?thesis
            using reported_invalid_structure by (simp add: res request_slides_def)
        qed
      qed
    qed
  qed
  from never fails kinds True show ?thesis unfolding req_def G_def by blast
next
  case False
  then obtain err where "generateSlides e apiKey prompt isDayPlanner = ([], Inl err)"
    using generateSlides_without_client [of apiKey e prompt isDayPlanner] assms by blast
  then have g: "snd (generateSlides e apiKey prompt isDayPlanner) = Inl err" by simp
  show ?thesis
    apply (intro conjI)
      apply (simp add: g)
     apply (simp add: g)
    using False apply blast
    done
qed

theorem remote_failure_is_propagated_witness:
  "''sk-test'' \<noteq> ''demo-key'' \<and> ''sk-test'' \<noteq> [] \<and> startsWith ''sk-test'' ''sk-''
   \<and> remote_call_fails timing_out_env
        \<lparr>api_key = ''sk-test'', system_prompt = SlideGenerationPrompt, user_prompt = ''Solar power''\<rparr>
   \<and> snd (generateSlides timing_out_env ''sk-test'' ''Solar power'' False)
       = Inl (Error timeout_message)
   \<and> snd (generateSlides (rejecting_env rejected_key_error) ''sk-test'' ''Solar power'' False)
       = Inl (Error key_message)
   \<and> title_only_response \<noteq> Null \<and> \<not> isArray (js_get title_only_response ''slides'')
   \<and> snd (generateSlides (answering_env title_only_text title_only_response)
            ''sk-test'' ''Solar power'' False)
       = Inl (Error (generic_message
           (''Invalid response structure from OpenAI. '' @ ''Missing title or slides array.'')))"
proof -
  have key: "''sk-test'' \<noteq> ''demo-key''" "''sk-test'' \<noteq> [] \<and> startsWith ''sk-test'' ''sk-''"
    by (simp_all add: startsWith_def)
  have "reported_message rejected_key_error = key_message"
    by (simp add: reported_message_def rejected_key_error_def)
  moreover have "title_only_text \<noteq> []"
    by (simp add: title_only_text_def)
  moreover have "title_only_response \<noteq> Null" "\<not> isArray (js_get title_only_response ''slides'')"
    by (simp_all add: title_only_response_def js_get_def)
  ultimately show ?thesis
    using key
      remote_failure_is_propagated [OF key(1), of timing_out_env "''Solar power''" False]
      remote_failure_is_propagated
        [OF key(1), of "rejecting_env rejected_key_error" "''Solar power''" False]
      remote_failure_is_propagated
        [OF key(1), of "answering_env title_only_text title_only_response" "''Solar power''" False]
    by (simp add: remote_call_fails_def timing_out_env_def rejecting_env_def answering_env_def)
qed

lemma string_of_nat_nonempty: "string_of_nat n \<noteq> []"
  by (subst string_of_nat.simps) simp

lemma digit_inj:
  assumes "a < 10" and "b < 10" and "''0123456789'' ! a = ''0123456789'' ! b"
  shows "a = b"
proof -
  have "distinct ''0123456789''" by simp
  moreover have "a < length ''0123456789''" "b < length ''0123456789''"
    using assms by simp_all
  ultimately show ?thesis using assms(3) by (simp only: nth_eq_iff_index_eq)
qed

lemma string_of_nat_inj: "string_of_nat n = string_of_nat m \<Longrightarrow> n = m"
proof (induction n arbitrary: m rule: string_of_nat.induct)
  case (1 n)
  show ?case
  proof (cases "n < 10")
    case True
    then have n: "string_of_nat n = [''0123456789'' ! n]"
      by (subst string_of_nat.simps) simp
    show ?thesis
    proof (cases "m < 10")
      case mlt: True
      then have "string_of_nat m = [''0123456789'' ! m]"
        by (subst string_of_nat.simps) simp
      with n "1.prems" have "''0123456789'' ! n = ''0123456789'' ! m" by simp
      with True mlt show ?thesis by (rule digit_inj)
    next
      case False
      then have "string_of_nat m = string_of_nat (m div 10) @ [''0123456789'' ! (m mod 10)]"
        by (subst string_of_nat.simps) simp
      with n "1.prems" have "string_of_nat (m div 10) = []" by simp
      then show ?thesis using string_of_nat_nonempty by blast
    qed
  next
    case False
    then have n: "string_of_nat n = string_of_nat (n div 10) @ [''0123456789'' ! (n mod 10)]"
      by (subst string_of_nat.simps) simp
    show ?thesis
    proof (cases "m < 10")
      case True
      then have "string_of_nat m = [''0123456789'' ! m]"
        by (subst string_of_nat.simps) simp
      with n "1.prems" have "string_of_nat (n div 10) = []" by simp
      then show ?thesis using string_of_nat_nonempty by blast
    next
      case mge: False
      then have "string_of_nat m = string_of_nat (m div 10) @ [''0123456789'' ! (m mod 10)]"
        by (subst string_of_nat.simps) simp
      with n "1.prems" have eq: "string_of_nat (n div 10) = string_of_nat (m div 10)"
        and dg: "''0123456789'' ! (n mod 10) = ''0123456789'' ! (m mod 10)"
        by simp_all
      from "1.IH" [OF False eq] have "n div 10 = m div 10" .
      moreover have "n mod 10 = m mod 10"
        by (rule digit_inj [OF _ _ dg]) simp_all
      ultimately show ?thesis by (metis div_mult_mod_eq)
    qed
  qed
qed

lemma indexed_keys_distinct: "distinct (map fst (indexed xs))"
proof -
  have "inj_on string_of_nat (set [0..<length xs])"
    by (rule inj_onI) (rule string_of_nat_inj)
  then have "distinct (map string_of_nat [0..<length xs])"
    by (simp add: distinct_map)
  then show ?thesis by (simp add: indexed_def)
qed

lemma spreadable_keys_distinct: "spreadable s \<Longrightarrow> distinct (map fst (own_props s))"
  by (cases s) (simp_all add: indexed_keys_distinct)

lemma spreadable_not_null: "spreadable s \<Longrightarrow> s \<noteq> Null"
  by (cases s) simp_all

text \<open>Reading a property of an object literal with a spread.\<close>

lemma map_of_assign:
  "map_of (assign obj kvs) k = (case map_of (rev kvs) k of Some v \<Rightarrow> Some v | None \<Rightarrow> map_of obj k)"
  unfolding assign_def
proof (induction kvs arbitrary: obj)
  case Nil
  then show ?case by simp
next
  case (Cons kv kvs)
  obtain k' v' where kv: "kv = (k', v')" by (cases kv)
  show ?case
    by (simp add: kv Cons.IH update_conv' map_add_def split: option.splits)
qed

lemma map_of_rev_distinct:
  "distinct (map fst kvs) \<Longrightarrow> map_of (rev kvs) = map_of kvs"
  by (rule map_of_inject_set[THEN iffD2]) (auto simp: distinct_rev rev_map[symmetric])

lemma first_error_all_right: "first_error (map Inr xs) = Inr xs"
  by (induction xs) simp_all

lemma map_of_map_keyed:
  "map_of (map (\<lambda>(key, d). (key, f key d)) xs) k = map_option (f k) (map_of xs k)"
  by (induction xs) auto

lemma or_else_undefined: "or_else None d = d"
  by (simp add: or_else_def)

lemma normalize_slide_literal:
  "slide \<noteq> Null \<Longrightarrow> normalize_slide index slide =
     Inr (Obj (assign (map (\<lambda>(key, d). (key, or_else (js_get slide key) d)) (slide_defaults index))
                 (own_props slide)))"
  by (simp add: normalize_slide_def slide_defaults_def)

lemma js_get_normalized:
  assumes "distinct (map fst (own_props slide))"
  shows "js_get (Obj (assign (map (\<lambda>(key, d). (key, or_else (js_get slide key) d))
                              (slide_defaults index)) (own_props slide))) k
       = (case js_get slide k of Some v \<Rightarrow> Some v | None \<Rightarrow> map_of (slide_defaults index) k)"
proof (cases "map_of (own_props slide) k")
  case None
  have "map_option (or_else None) (map_of (slide_defaults index) k) = map_of (slide_defaults index) k"
    by (cases "map_of (slide_defaults index) k") (simp_all add: or_else_undefined)
  with None show ?thesis
    by (simp add: js_get_def map_of_assign map_of_rev_distinct [OF assms] map_of_map_keyed)
next
  case (Some v)
  then show ?thesis
    by (simp add: js_get_def map_of_assign map_of_rev_distinct [OF assms])
qed

lemma normalize_slides_spreadable:
  assumes "\<forall>s \<in> set slides. spreadable s"
  shows "\<exists>out. normalize_slides slides = Inr out \<and> length out = length slides
     \<and> (\<forall>i < length slides. \<forall>k.
           js_get (out ! i) k = (case js_get (slides ! i) k of Some v \<Rightarrow> Some v
                                 | None \<Rightarrow> map_of (slide_defaults i) k))"
proof -
  define N where "N = (\<lambda>(index, slide).
     Obj (assign (map (\<lambda>(key, d). (key, or_else (js_get slide key) d)) (slide_defaults index))
            (own_props slide)))"
  have "map (\<lambda>(index, slide). normalize_slide index slide) (enumerate 0 slides)
      = map Inr (map N (enumerate 0 slides))"
  proof (unfold map_map, rule map_cong [OF refl])
    fix p assume "p \<in> set (enumerate 0 slides)"
    then have "fst p < length slides" and "slides ! fst p = snd p"
      by (simp_all add: in_set_enumerate_eq)
    then have "snd p \<in> set slides" by (metis nth_mem)
    with assms have "snd p \<noteq> Null" using spreadable_not_null by blast
    then show "(case p of (index, slide) \<Rightarrow> normalize_slide index slide) = (Inr \<circ> N) p"
      by (cases p) (simp add: N_def normalize_slide_literal)
  qed
  then have out: "normalize_slides slides = Inr (map N (enumerate 0 slides))"
    unfolding normalize_slides_def by (simp only: first_error_all_right)
  have "js_get (map N (enumerate 0 slides) ! i) k
      = (case js_get (slides ! i) k of Some v \<Rightarrow> Some v | None \<Rightarrow> map_of (slide_defaults i) k)"
    if "i < length slides" for i k
  proof -
    from that assms have "spreadable (slides ! i)" by simp
    then have dist: "distinct (map fst (own_props (slides ! i)))"
      by (rule spreadable_keys_distinct)
    have "map N (enumerate 0 slides) ! i = N (i, slides ! i)"
      using that by (simp add: nth_enumerate_eq)
    then show ?thesis
      using js_get_normalized [OF dist, of i k] by (simp add: N_def)
  qed
  with out show ?thesis by simp
qed

text \<open>A value with a property named "slides" is an object: the properties of an array and
  of a string are named by numbers.\<close>

lemma last_string_of_nat: "last (string_of_nat n) \<in> set ''0123456789''"
proof -
  have "last (string_of_nat n) = ''0123456789'' ! (n mod 10)"
    by (subst string_of_nat.simps) simp
  moreover have "n mod 10 < length ''0123456789''" by simp
  ultimately show ?thesis by (metis nth_mem)
qed

lemma indexed_no_slides: "map_of (indexed xs) ''slides'' = None"
proof -
  have "''slides'' \<notin> set (map string_of_nat [0..<length xs])"
  proof
    assume "''slides'' \<in> set (map string_of_nat [0..<length xs])"
    then obtain n where "string_of_nat n = ''slides''" by auto
    with last_string_of_nat [of n] show False by simp
  qed
  moreover have "map fst (indexed xs) = map string_of_nat [0..<length xs]"
    by (simp add: indexed_def)
  ultimately have "''slides'' \<notin> set (map fst (indexed xs))" by metis
  then show ?thesis by (simp add: map_of_eq_None_iff)
qed

lemma with_slides_is_object:
  assumes "js_get parsed ''slides'' = Some v"
  shows "\<exists>kvs. parsed = Obj kvs"
  using assms by (cases parsed) (simp_all add: js_get_def indexed_no_slides)

lemma set_prop_slides:
  assumes "js_get parsed ''slides'' = Some v"
  shows "js_get (set_prop parsed ''slides'' x) ''slides'' = Some x"
    and "k \<noteq> ''slides'' \<Longrightarrow> js_get (set_prop parsed ''slides'' x) k = js_get parsed k"
proof -
  from with_slides_is_object [OF assms] obtain kvs where "parsed = Obj kvs" by blast
  then show "js_get (set_prop parsed ''slides'' x) ''slides'' = Some x"
    and "k \<noteq> ''slides'' \<Longrightarrow> js_get (set_prop parsed ''slides'' x) k = js_get parsed k"
    by (simp_all add: js_get_def update_conv')
qed

text \<open>
  Claim C2, as stated: for every provider response whose top-level object has a title and a
  slides array, the normalization fills each slide's missing fields. A response whose title
  is the empty string is rejected before the normalization, and a slide that is
  \<^verbatim>\<open>null\<close> makes the normalization throw: in both cases the caller gets an error
  and no slide.
\<close>

theorem response_not_normalized_counterexample:
  "js_get empty_title_response ''title'' = Some (Str [])
   \<and> isArray (js_get empty_title_response ''slides'')
   \<and> snd (generateSlides (answering_env empty_title_text empty_title_response)
            ''sk-test'' ''Solar power'' False)
       = Inl (Error (''OpenAI API Error: Invalid response structure from OpenAI. ''
                @ ''Missing title or slides array.. Please check your API key and try again.''))
   \<and> js_get null_slide_response ''title'' = Some (Str ''Deck'')
   \<and> isArray (js_get null_slide_response ''slides'')
   \<and> snd (generateSlides (answering_env null_slide_text null_slide_response)
            ''sk-test'' ''Solar power'' False)
       = Inl (Error (''OpenAI API Error: Cannot read properties of null (reading ''
                @ [CHR 0x27] @ ''id'' @ [CHR 0x27]
                @ ''). Please check your API key and try again.''))"
  by (simp add: generateSlides_def createOpenAIClient_def startsWith_def request_slides_def
        answering_env_def empty_title_response_def null_slide_response_def
        empty_title_text_def null_slide_text_def dq_def
        validate_and_normalize_def normalize_slides_def normalize_slide_def enumerate_eq_zip
        js_get_def rethrow_def Error_def TypeError_null_def assign_def or_else_def
        string_of_nat.simps)

text \<open>
  Claim C2, amended. For every provider response whose top-level object has a truthy
  (non-empty) title and a slides array without a \<^verbatim>\<open>null\<close> element, received for a
  key of the right format, the orchestrator returns the response with its slides replaced
  by their normalization and every other top-level field as it was. The normalization
  keeps one slide per slide; in each, every field the provider supplied has the value the
  provider gave it (extra fields included), every field among id, type, title, subtitle,
  content, speakerNotes and animation that the provider left out has its default
  (id = position counted from 1, type "content", title "Slide N", subtitle "", content [],
  speakerNotes "", animation "fadeIn"), and no other field appears.
\<close>

theorem normalization_fills_only_missing_fields:
  assumes key: "apiKey \<noteq> ''demo-key''" "apiKey \<noteq> []" "startsWith apiKey ''sk-''"
    and answer: "service e \<lparr>api_key = apiKey,
           system_prompt = (if isDayPlanner then DayPlannerPrompt else SlideGenerationPrompt),
           user_prompt = prompt\<rparr> = Completed (Some content)"
    and content: "content \<noteq> []" "JSON_parse e content = Some parsed"
    and title: "truthy (js_get parsed ''title'')"
    and slides: "js_get parsed ''slides'' = Some (Arr slides)"
    and no_null: "\<forall>s \<in> set slides. spreadable s"
  shows "\<exists>response out.
       snd (generateSlides e apiKey prompt isDayPlanner) = Inr (Generated response)
     \<and> js_get response ''slides'' = Some (Arr out)
     \<and> (\<forall>k. k \<noteq> ''slides'' \<longrightarrow> js_get response k = js_get parsed k)
     \<and> length out = length slides
     \<and> (\<forall>i < length slides. \<forall>k.
           js_get (out ! i) k = (case js_get (slides ! i) k of Some v \<Rightarrow> Some v
                                 | None \<Rightarrow> map_of (slide_defaults i) k))"
proof -
  from normalize_slides_spreadable [OF no_null]
  obtain out where out: "normalize_slides slides = Inr out"
    and len: "length out = length slides"
    and fields: "\<forall>i < length slides. \<forall>k.
           js_get (out ! i) k = (case js_get (slides ! i) k of Some v \<Rightarrow> Some v
                                 | None \<Rightarrow> map_of (slide_defaults i) k)"
    by blast
  define response where "response = set_prop parsed ''slides'' (Arr out)"
  from slides have "parsed \<noteq> Null" by (auto simp: js_get_def)
  with title slides out
  have "validate_and_normalize parsed = Inr response"
    by (simp add: validate_and_normalize_def response_def)
  with answer content
  have "request_slides e \<lparr>api_key = apiKey,
           system_prompt = (if isDayPlanner then DayPlannerPrompt else SlideGenerationPrompt),
           user_prompt = prompt\<rparr> = Inr response"
    by (simp add: request_slides_def)
  with generateSlides_with_client [OF key, of e prompt isDayPlanner]
  have "snd (generateSlides e apiKey prompt isDayPlanner) = Inr (Generated response)"
    by simp
  moreover have "js_get response ''slides'' = Some (Arr out)"
    unfolding response_def by (rule set_prop_slides(1) [OF slides])
  moreover have "\<forall>k. k \<noteq> ''slides'' \<longrightarrow> js_get response k = js_get parsed k"
    unfolding response_def using set_prop_slides(2) [OF slides] by blast
  ultimately show ?thesis using len fields by blast
qed

theorem normalization_fills_only_missing_fields_witness:
  "''sk-test'' \<noteq> ''demo-key'' \<and> ''sk-test'' \<noteq> [] \<and> startsWith ''sk-test'' ''sk-''
   \<and> truthy (js_get example_response ''title'')
   \<and> js_get example_response ''slides'' = Some (Arr example_slides)
   \<and> list_all spreadable example_slides
   \<and> (\<exists>response out.
         snd (generateSlides (answering_env example_text example_response)
                ''sk-test'' ''Solar power'' False) = Inr (Generated response)
       \<and> js_get response ''title'' = Some (Str ''Deck'')
       \<and> js_get response ''slides'' = Some (Arr out) \<and> length out = 3
       \<and> js_get (out ! 0) ''id'' = Some (Num 1)
       \<and> js_get (out ! 0) ''title'' = Some (Str ''Welcome'')
       \<and> js_get (out ! 0) ''layout'' = Some (Str ''center'')
       \<and> js_get (out ! 1) ''id'' = Some (Num 7)
       \<and> js_get (out ! 1) ''title'' = Some (Str ''Slide 2'')
       \<and> js_get (out ! 1) ''animation'' = Some (Str ''fadeIn'')
       \<and> js_get (out ! 2) ''id'' = Some (Num 3)
       \<and> js_get (out ! 2) ''type'' = Some (Str ''content''))"
proof -
  have key: "''sk-test'' \<noteq> ''demo-key''" "''sk-test'' \<noteq> []" "startsWith ''sk-test'' ''sk-''"
    by (simp_all add: startsWith_def)
  have answer: "service (answering_env example_text example_response)
       \<lparr>api_key = ''sk-test'',
          system_prompt = (if False then DayPlannerPrompt else SlideGenerationPrompt),
          user_prompt = ''Solar power''\<rparr> = Completed (Some example_text)"
    by (simp add: answering_env_def)
  have content: "example_text \<noteq> []"
    "JSON_parse (answering_env example_text example_response) example_text
       = Some example_response"
    by (simp_all add: answering_env_def example_text_def)
  have title: "truthy (js_get example_response ''title'')"
    and title_value: "js_get example_response ''title'' = Some (Str ''Deck'')"
    and slides: "js_get example_response ''slides'' = Some (Arr example_slides)"
    by (simp_all add: example_response_def js_get_def)
  have no_null: "\<forall>s \<in> set example_slides. spreadable s"
    by (simp add: example_slides_def)
  from normalization_fills_only_missing_fields
         [OF key answer content title slides no_null]
  obtain response out where
    res: "snd (generateSlides (answering_env example_text example_response)
                ''sk-test'' ''Solar power'' False) = Inr (Generated response)"
    and got: "js_get response ''slides'' = Some (Arr out)"
    and rest: "\<And>k. k \<noteq> ''slides'' \<Longrightarrow> js_get response k = js_get example_response k"
    and len: "length out = length example_slides"
    and fields: "\<And>i k. i < length example_slides \<Longrightarrow>
           js_get (out ! i) k = (case js_get (example_slides ! i) k of Some v \<Rightarrow> Some v
                                 | None \<Rightarrow> map_of (slide_defaults i) k)"
    by blast
  have t: "js_get response ''title'' = Some (Str ''Deck'')"
    using rest [of "''title''"] title_value by simp
  have s0: "js_get (out ! 0) ''id'' = Some (Num 1)"
    "js_get (out ! 0) ''title'' = Some (Str ''Welcome'')"
    "js_get (out ! 0) ''layout'' = Some (Str ''center'')"
    using fields [of 0] by (simp_all add: example_slides_def js_get_def slide_defaults_def)
  have s1: "js_get (out ! 1) ''id'' = Some (Num 7)"
    "js_get (out ! 1) ''title'' = Some (Str ''Slide 2'')"
    "js_get (out ! 1) ''animation'' = Some (Str ''fadeIn'')"
    using fields [of 1]
    by (simp_all add: example_slides_def js_get_def slide_defaults_def string_of_nat.simps)
  have s2: "js_get (out ! 2) ''id'' = Some (Num 3)"
    "js_get (out ! 2) ''type'' = Some (Str ''content'')"
    using fields [of 2] by (simp_all add: example_slides_def js_get_def slide_defaults_def)
  have l: "length out = 3" using len by (simp add: example_slides_def)
  have sp: "list_all spreadable example_slides" by (simp add: example_slides_def)
  from key title slides sp res t got l s0 s1 s2 show ?thesis by blast
qed

subsection \<open>The persistence pipeline\<close>

lemma stored_form_plain: "plain_json v \<Longrightarrow> stored_form fmt v = v"
proof (induction v)
  case (Arr xs)
  then show ?case by (simp add: list_all_iff map_idI)
next
  case (Obj kvs)
  have "map (\<lambda>(k, v). (k, stored_form fmt v)) kvs = kvs"
  proof (rule map_idI)
    fix kv assume kv: "kv \<in> set kvs"
    obtain k v where eq: "kv = (k, v)" by (cases kv)
    from Obj.prems kv eq have "plain_json v" by (auto simp: list_all_iff)
    with Obj.IH [of kv v] kv eq show "(case kv of (k, v) \<Rightarrow> (k, stored_form fmt v)) = kv"
      by simp
  qed
  then show ?case by simp
qed simp_all

lemma js_get_stored_form_Obj:
  "js_get (stored_form fmt (Obj kvs)) k = map_option (stored_form fmt) (js_get (Obj kvs) k)"
  by (simp add: js_get_def map_of_map [unfolded comp_def])

lemma find_project_last:
  assumes "\<forall>q \<in> set xs. q \<noteq> Null \<and> js_get q ''id'' \<noteq> Some (Str projectId)"
    and "p \<noteq> Null" and "js_get p ''id'' = Some (Str projectId)"
  shows "find_project projectId (xs @ [p]) = Inr (Some p)"
  using assms by (induction xs) simp_all

lemma local_list_after_update:
  "local_list (w\<lparr>localStorage := AList.update ''local_projects'' (Parsed (Arr ys)) (localStorage w)\<rparr>)
     = Some ys"
  by (simp add: local_list_def update_conv')

lemma createProject_falls_back:
  assumes "slideData \<noteq> Null"
    and "\<not> is_fulfilled (addDoc b ''projects'' (projectData userId title prompt slideData type))"
    and "window_defined w" and "local_list w = Some xs" and "\<not> setItem_throws w"
  shows "createProject b w userId title prompt slideData type =
     (Inr (fallbackId w),
      w\<lparr>db_log := db_log w @ [AddDoc ''projects'' (projectData userId title prompt slideData type)],
        localStorage := AList.update ''local_projects''
          (Parsed (stored_form (toISOString w)
             (Arr (xs @ [localProject w userId title prompt slideData type]))))
          (localStorage w)\<rparr>)"
proof -
  from assms(2) obtain err where
    "race (addDoc b ''projects'' (projectData userId title prompt slideData type))
       ''Firestore timeout after 15 seconds'' = Inl err"
    by (cases "addDoc b ''projects'' (projectData userId title prompt slideData type)")
       (simp_all add: race_def)
  with assms(1,3,4,5) show ?thesis
    by (simp add: createProject_def Let_def save_locally_def local_list_def fallbackId_def
          localProject_def)
qed


lemma createProject_surfaces:
  assumes "slideData \<noteq> Null"
    and "race (addDoc b ''projects'' (projectData userId title prompt slideData type))
           ''Firestore timeout after 15 seconds'' = Inl err"
    and "\<not> local_tier_usable w"
  shows "fst (createProject b w userId title prompt slideData type) = Inl (create_failure err)"
  using assms
  by (auto simp: createProject_def Let_def save_locally_def local_list_def local_tier_usable_def
      split: option.splits)

lemma createProject_local_id:
  assumes "slideData \<noteq> Null"
    and "race (addDoc b ''projects'' (projectData userId title prompt slideData type))
           ''Firestore timeout after 15 seconds'' = Inl err"
    and "local_tier_usable w"
  shows "fst (createProject b w userId title prompt slideData type) = Inr (fallbackId w)"
proof -
  from assms(2)
  have nf: "\<not> is_fulfilled (addDoc b ''projects'' (projectData userId title prompt slideData type))"
    by (cases "addDoc b ''projects'' (projectData userId title prompt slideData type)")
       (simp_all add: race_def)
  from assms(3) obtain xs where "window_defined w" "local_list w = Some xs" "\<not> setItem_throws w"
    by (auto simp: local_tier_usable_def)
  from createProject_falls_back [OF assms(1) nf this] show ?thesis by simp
qed

text \<open>
  Claim C3, as stated: whenever the write to the document database fails, create returns an
  id with the prefix "local_". When the local store cannot be written the code gives up and
  throws instead.
\<close>

theorem create_without_local_store_counterexample:
  "\<not> is_fulfilled (addDoc (failing_backend unavailable_error) ''projects''
        (projectData ''u1'' ''Deck'' ''decks'' example_deck ''presentation''))
   \<and> fst (createProject (failing_backend unavailable_error)
            (example_world\<lparr>setItem_throws := True\<rparr>)
            ''u1'' ''Deck'' ''decks'' example_deck ''presentation'')
       = Inl (Error (''Cannot create project while offline. ''
                @ ''Please check your internet connection.''))"
  by (simp add: createProject_def Let_def failing_backend_def race_def example_world_def
        example_deck_def save_locally_def local_list_def create_failure_def
        unavailable_error_def)

text \<open>
  Claim C3, amended. For every deck that is JSON data and every owner, when the write to the
  document database fails or is still pending at its deadline, and the durable-local tier
  can be used (browser context, the stored list parses to an array of records, writing does
  not throw) and holds no record with the new id, create returns the id "local_" followed
  by the clock, the list in the local store is the old list with one record appended, that
  record carries the id, the owner and the deck, and a read of the id returns this record,
  whatever the document database does.
\<close>

theorem failed_write_is_saved_locally_and_read_back:
  assumes failed: "\<not> is_fulfilled (addDoc b ''projects''
                       (projectData userId title prompt slideData type))"
    and deck: "slideData \<noteq> Null" "plain_json slideData"
    and usable: "window_defined w" "local_list w = Some xs" "\<not> setItem_throws w"
    and records: "list_all plain_json xs"
    and fresh: "\<forall>q \<in> set xs. q \<noteq> Null \<and> js_get q ''id'' \<noteq> Some (Str (fallbackId w))"
  shows "\<exists>w' p. createProject b w userId title prompt slideData type = (Inr (fallbackId w), w')
     \<and> startsWith (fallbackId w) ''local_''
     \<and> local_list w' = Some (xs @ [p])
     \<and> js_get p ''id'' = Some (Str (fallbackId w))
     \<and> js_get p ''userId'' = Some (Str userId)
     \<and> js_get p ''slideData'' = Some slideData
     \<and> (\<forall>b'. getProject b' w' (fallbackId w) = Inr (Some p))"
proof -
  define lp where "lp = localProject w userId title prompt slideData type"
  define p where "p = stored_form (toISOString w) lp"
  define w' where "w' = w\<lparr>db_log := db_log w @ [AddDoc ''projects''
        (projectData userId title prompt slideData type)],
      localStorage := AList.update ''local_projects''
        (Parsed (stored_form (toISOString w) (Arr (xs @ [lp])))) (localStorage w)\<rparr>"
  have created: "createProject b w userId title prompt slideData type = (Inr (fallbackId w), w')"
    using createProject_falls_back [OF deck(1) failed usable] by (simp add: w'_def lp_def)
  have unchanged: "map (stored_form (toISOString w)) xs = xs"
    using records by (simp add: list_all_iff map_idI stored_form_plain)
  have stored: "stored_form (toISOString w) (Arr (xs @ [lp])) = Arr (xs @ [p])"
    unfolding p_def by (simp only: stored_form.simps map_append list.map unchanged)
  have list: "local_list w' = Some (xs @ [p])"
    unfolding w'_def stored by (simp add: local_list_def update_conv')
  have lp_obj: "\<exists>kvs. lp = Obj kvs" by (simp add: lp_def localProject_def)
  then obtain kvs where kvs: "lp = Obj kvs" by blast
  have get: "js_get p k = map_option (stored_form (toISOString w)) (js_get lp k)" for k
    unfolding p_def kvs by (rule js_get_stored_form_Obj)
  have id: "js_get p ''id'' = Some (Str (fallbackId w))"
    unfolding get by (simp add: lp_def localProject_def js_get_def)
  have owner: "js_get p ''userId'' = Some (Str userId)"
    unfolding get by (simp add: lp_def localProject_def js_get_def)
  have content: "js_get p ''slideData'' = Some slideData"
    unfolding get by (simp add: lp_def localProject_def js_get_def stored_form_plain [OF deck(2)])
  have "p \<noteq> Null" by (simp add: p_def kvs)
  then have found: "find_project (fallbackId w) (xs @ [p]) = Inr (Some p)"
    using find_project_last [OF fresh _ id] by simp
  have truthy: "truthy (Some p)" by (simp add: p_def kvs)
  have prefix: "startsWith (fallbackId w) ''local_''"
    by (simp add: startsWith_def fallbackId_def)
  have "window_defined w'" using usable(1) by (simp add: w'_def)
  with prefix list found truthy
  have "getProject b' w' (fallbackId w) = Inr (Some p)" for b'
    by (simp add: getProject_def local_lookup_def)
  with created prefix list id owner content show ?thesis by blast
qed


lemma three_tier_fallbackId: "fallbackId three_tier_world = ''local_1800000000000''"
  by (simp add: fallbackId_def three_tier_world_def string_of_nat.simps)

theorem failed_write_is_saved_locally_and_read_back_witness:
  "\<not> is_fulfilled (addDoc three_tier_backend ''projects''
        (projectData ''u1'' ''Deck'' ''decks'' example_deck ''presentation''))
   \<and> example_deck \<noteq> Null \<and> plain_json example_deck
   \<and> window_defined three_tier_world
   \<and> local_list three_tier_world = Some [stored_local_project]
   \<and> \<not> setItem_throws three_tier_world
   \<and> list_all plain_json [stored_local_project]
   \<and> stored_local_project \<noteq> Null
   \<and> js_get stored_local_project ''id'' \<noteq> Some (Str (fallbackId three_tier_world))
   \<and> (\<exists>w' p. createProject three_tier_backend three_tier_world
                 ''u1'' ''Deck'' ''decks'' example_deck ''presentation''
               = (Inr ''local_1800000000000'', w')
         \<and> local_list w' = Some [stored_local_project, p]
         \<and> js_get p ''slideData'' = Some example_deck
         \<and> getProject three_tier_backend w' ''local_1800000000000'' = Inr (Some p))"
proof -
  have failed: "\<not> is_fulfilled (addDoc three_tier_backend ''projects''
        (projectData ''u1'' ''Deck'' ''decks'' example_deck ''presentation''))"
    by (simp add: three_tier_backend_def)
  have deck: "example_deck \<noteq> Null" "plain_json example_deck"
    by (simp_all add: example_deck_def)
  have usable: "window_defined three_tier_world"
    "local_list three_tier_world = Some [stored_local_project]"
    "\<not> setItem_throws three_tier_world"
    by (simp_all add: three_tier_world_def local_list_def)
  have records: "list_all plain_json [stored_local_project]"
    by (simp add: stored_local_project_def)
  have fresh: "\<forall>q \<in> set [stored_local_project]. q \<noteq> Null
     \<and> js_get q ''id'' \<noteq> Some (Str (fallbackId three_tier_world))"
    by (simp add: three_tier_fallbackId stored_local_project_def js_get_def)
  from failed_write_is_saved_locally_and_read_back [OF failed deck usable records fresh]
  obtain w' p where
    "createProject three_tier_backend three_tier_world
       ''u1'' ''Deck'' ''decks'' example_deck ''presentation''
       = (Inr (fallbackId three_tier_world), w')"
    "local_list w' = Some ([stored_local_project] @ [p])"
    "js_get p ''slideData'' = Some example_deck"
    "getProject three_tier_backend w' (fallbackId three_tier_world) = Inr (Some p)"
    by auto
  with failed deck usable records fresh show ?thesis
    unfolding three_tier_fallbackId by auto
qed

text \<open>
  Claim C4, as stated: a permission or credential failure of the write never triggers the
  local fallback and is surfaced to the caller. The code does not look at the kind of the
  failure before it falls back: a write refused with "permission-denied" ends with a local
  id and no error.
\<close>

theorem permission_failure_falls_back_counterexample:
  "code permission_error = Some ''permission-denied''
   \<and> addDoc (failing_backend permission_error) ''projects''
        (projectData ''u1'' ''Deck'' ''decks'' example_deck ''presentation'')
       = Failed permission_error
   \<and> fst (createProject (failing_backend permission_error) example_world
            ''u1'' ''Deck'' ''decks'' example_deck ''presentation'')
       = Inr ''local_1700000000000''"
  by (simp add: createProject_def Let_def failing_backend_def race_def example_world_def
        example_deck_def save_locally_def local_list_def permission_error_def fallbackId_def
        string_of_nat.simps)

text \<open>
  Claim C4, amended. In create, every failure of the write to the document database,
  whatever its kind (unavailable, refused for lack of permission, or still pending at the
  15 second deadline), triggers the fallback to the durable-local tier: when that tier can
  be used, create returns the local id and no error; only when it cannot be used is the
  failure surfaced, as the offline message for an error with the code "unavailable" or
  with "offline" in its message, and as the generic message for every other error and for
  the deadline.
\<close>

theorem every_write_failure_falls_back:
  assumes "slideData \<noteq> Null"
  shows "(\<forall>err. addDoc b ''projects'' (projectData userId title prompt slideData type) = Failed err
           \<longrightarrow> fst (createProject b w userId title prompt slideData type)
               = (if local_tier_usable w then Inr (fallbackId w)
                  else if code err = Some ''unavailable'' \<or> str_includes (message err) ''offline''
                    then Inl (Error (''Cannot create project while offline. ''
                           @ ''Please check your internet connection.''))
                  else Inl (Error ''Failed to create project. Please try again.'')))
     \<and> (addDoc b ''projects'' (projectData userId title prompt slideData type) = Pending
           \<longrightarrow> fst (createProject b w userId title prompt slideData type)
               = (if local_tier_usable w then Inr (fallbackId w)
                  else Inl (Error ''Failed to create project. Please try again.'')))"
proof (intro conjI allI impI)
  fix err
  assume "addDoc b ''projects'' (projectData userId title prompt slideData type) = Failed err"
  then have "race (addDoc b ''projects'' (projectData userId title prompt slideData type))
          ''Firestore timeout after 15 seconds'' = Inl err"
    by (simp add: race_def)
  with assms
  have "fst (createProject b w userId title prompt slideData type)
      = (if local_tier_usable w then Inr (fallbackId w) else Inl (create_failure err))"
    using createProject_local_id createProject_surfaces by simp
  then show "fst (createProject b w userId title prompt slideData type)
      = (if local_tier_usable w then Inr (fallbackId w)
         else if code err = Some ''unavailable'' \<or> str_includes (message err) ''offline''
           then Inl (Error (''Cannot create project while offline. ''
                  @ ''Please check your internet connection.''))
         else Inl (Error ''Failed to create project. Please try again.''))"
    by (simp add: create_failure_def)
next
  assume "addDoc b ''projects'' (projectData userId title prompt slideData type) = Pending"
  then have "race (addDoc b ''projects'' (projectData userId title prompt slideData type))
          ''Firestore timeout after 15 seconds'' = Inl (Error ''Firestore timeout after 15 seconds'')"
    by (simp add: race_def)
  with assms
  have "fst (createProject b w userId title prompt slideData type)
      = (if local_tier_usable w then Inr (fallbackId w)
         else Inl (create_failure (Error ''Firestore timeout after 15 seconds'')))"
    using createProject_local_id createProject_surfaces by simp
  moreover have "create_failure (Error ''Firestore timeout after 15 seconds'')
      = Error ''Failed to create project. Please try again.''"
    by (simp add: create_failure_def Error_def)
  ultimately show "fst (createProject b w userId title prompt slideData type)
      = (if local_tier_usable w then Inr (fallbackId w)
         else Inl (Error ''Failed to create project. Please try again.''))"
    by simp
qed

theorem every_write_failure_falls_back_witness:
  "example_deck \<noteq> Null
   \<and> addDoc (failing_backend permission_error) ''projects''
        (projectData ''u1'' ''Deck'' ''decks'' example_deck ''presentation'')
       = Failed permission_error
   \<and> addDoc pending_backend ''projects''
        (projectData ''u1'' ''Deck'' ''decks'' example_deck ''presentation'') = Pending
   \<and> local_tier_usable example_world
   \<and> local_tier_usable (example_world\<lparr>localStorage := [(''local_projects'', EmptyString)]\<rparr>)
   \<and> \<not> local_tier_usable (example_world\<lparr>window_defined := False\<rparr>)
   \<and> fst (createProject (failing_backend permission_error) example_world
            ''u1'' ''Deck'' ''decks'' example_deck ''presentation'')
       = Inr (fallbackId example_world)
   \<and> fst (createProject (failing_backend permission_error)
            (example_world\<lparr>localStorage := [(''local_projects'', EmptyString)]\<rparr>)
            ''u1'' ''Deck'' ''decks'' example_deck ''presentation'')
       = Inr (fallbackId example_world)
   \<and> fst (createProject (failing_backend permission_error)
            (example_world\<lparr>window_defined := False\<rparr>)
            ''u1'' ''Deck'' ''decks'' example_deck ''presentation'')
       = Inl (Error ''Failed to create project. Please try again.'')
   \<and> fst (createProject pending_backend example_world
            ''u1'' ''Deck'' ''decks'' example_deck ''presentation'')
       = Inr (fallbackId example_world)
   \<and> fst (createProject pending_backend (example_world\<lparr>window_defined := False\<rparr>)
            ''u1'' ''Deck'' ''decks'' example_deck ''presentation'')
       = Inl (Error ''Failed to create project. Please try again.'')"
proof -
  have deck: "example_deck \<noteq> Null" by (simp add: example_deck_def)
  have failed: "addDoc (failing_backend permission_error) ''projects''
        (projectData ''u1'' ''Deck'' ''decks'' example_deck ''presentation'')
       = Failed permission_error"
    by (simp add: failing_backend_def)
  have pending: "addDoc pending_backend ''projects''
        (projectData ''u1'' ''Deck'' ''decks'' example_deck ''presentation'') = Pending"
    by (simp add: pending_backend_def)
  have usable: "local_tier_usable example_world"
    "local_tier_usable (example_world\<lparr>localStorage := [(''local_projects'', EmptyString)]\<rparr>)"
    "\<not> local_tier_usable (example_world\<lparr>window_defined := False\<rparr>)"
    by (simp_all add: local_tier_usable_def example_world_def local_list_def)
  have same_id: "fallbackId (example_world\<lparr>localStorage := [(''local_projects'', EmptyString)]\<rparr>)
      = fallbackId example_world"
    by (simp add: fallbackId_def)
  have kind: "code permission_error \<noteq> Some ''unavailable''"
    "\<not> str_includes (message permission_error) ''offline''"
    by (simp_all add: permission_error_def)
  from every_write_failure_falls_back
         [OF deck, of "failing_backend permission_error" "''u1''" "''Deck''" "''decks''"
            "''presentation''" example_world]
       every_write_failure_falls_back
         [OF deck, of "failing_backend permission_error" "''u1''" "''Deck''" "''decks''"
            "''presentation''"
            "example_world\<lparr>localStorage := [(''local_projects'', EmptyString)]\<rparr>"]
       every_write_failure_falls_back
         [OF deck, of "failing_backend permission_error" "''u1''" "''Deck''" "''decks''"
            "''presentation''" "example_world\<lparr>window_defined := False\<rparr>"]
       every_write_failure_falls_back
         [OF deck, of pending_backend "''u1''" "''Deck''" "''decks''"
            "''presentation''" example_world]
       every_write_failure_falls_back
         [OF deck, of pending_backend "''u1''" "''Deck''" "''decks''"
            "''presentation''" "example_world\<lparr>window_defined := False\<rparr>"]
       deck failed pending usable same_id kind
  show ?thesis by simp
qed

text \<open>\<open>updateProject\<close> sends every update to the document database, with
  \<^verbatim>\<open>updatedAt\<close> set to the server's timestamp, and leaves both browser stores as
  they are, whatever the id.\<close>

lemma updateProject_goes_to_database:
  "localStorage (snd (updateProject b w projectId updates)) = localStorage w
   \<and> sessionStorage (snd (updateProject b w projectId updates)) = sessionStorage w
   \<and> (\<exists>data. db_log (snd (updateProject b w projectId updates))
                 = db_log w @ [UpdateDoc ''projects'' projectId data]
         \<and> js_get data ''updatedAt'' = Some (FieldValue ''serverTimestamp''))"
  by (auto simp: updateProject_def Let_def js_get_def map_of_assign split: sum.splits)

text \<open>
  Claim C6 says that update routes by id prefix as read does, so that an id with the
  durable-local prefix updates the durable-local store only. The code at such an id: the
  project "local_1700000000000" is in the local store, where read finds it; its update is
  sent to the document database, which has no such document, the call fails, and the
  local store keeps the old record.
\<close>

theorem update_of_local_id_goes_to_database:
  "local_lookup three_tier_world ''local_1700000000000'' = Some stored_local_project
   \<and> fst (updateProject three_tier_backend three_tier_world ''local_1700000000000''
            (Obj [(''title'', Str ''Renamed'')]))
       = Inl (Error ''Failed to update project'')
   \<and> db_log (snd (updateProject three_tier_backend three_tier_world ''local_1700000000000''
            (Obj [(''title'', Str ''Renamed'')])))
       = [UpdateDoc ''projects'' ''local_1700000000000''
            (Obj [(''title'', Str ''Renamed''), (''updatedAt'', FieldValue ''serverTimestamp'')])]
   \<and> localStorage (snd (updateProject three_tier_backend three_tier_world
            ''local_1700000000000'' (Obj [(''title'', Str ''Renamed'')])))
       = [(''local_projects'', Parsed (Arr [stored_local_project]))]"
  by (simp add: updateProject_def Let_def three_tier_backend_def three_tier_world_def
        assign_def local_lookup_def local_list_def startsWith_def stored_local_project_def
        js_get_def)

text \<open>
  Claim C5 says that the merged list is sorted by creation time, newest first, with every
  timestamp normalized to a comparable instant. The code at one project per tier: the three
  projects are listed, but the local project, created in November 2023 and stored with its
  creation time as an ISO string, comes after the database project created in September
  2020, because the comparator gives a string the instant 0.
\<close>

theorem local_projects_sort_as_epoch:
  "map (\<lambda>p. (js_get p ''id'', js_get p ''createdAt''))
       (loadProjects three_tier_backend three_tier_world ''u1'')
   = [(Some (Str ''temp_1750000000000''), Some (DateObj 1800000000000)),
      (Some (Str ''abc123''), Some (Timestamp 1600000000000)),
      (Some (Str ''local_1700000000000''), Some (Str ''2023-11-14T22:13:20.000Z''))]"
  by (simp add: loadProjects_def Let_def getUserProjects_def three_tier_backend_def
        three_tier_world_def userLocalProjects_def userTempProjects_def tempProject_of_def
        formattedTempProject_def local_list_def startsWith_def List.map_filter_def
        cloud_project_def stored_local_project_def stored_temp_project_def assign_def
        js_get_def sort_instant_def or_else_def)


text \<open>What does hold of the list: it is the union of the three tiers, a failed database read
  contributes nothing, and the order is descending in the instant the comparator computes.\<close>

lemma loadProjects_merges_and_sorts:
  assumes "window_defined w"
  shows "set (loadProjects b w uid)
       = set (case getUserProjects b uid of Inr ps \<Rightarrow> ps | Inl err \<Rightarrow> [])
         \<union> set (userLocalProjects w uid) \<union> set (userTempProjects w uid)"
    and "length (loadProjects b w uid)
       = length (case getUserProjects b uid of Inr ps \<Rightarrow> ps | Inl err \<Rightarrow> [])
         + length (userLocalProjects w uid) + length (userTempProjects w uid)"
    and "sorted (map (\<lambda>p. - int (sort_instant p)) (loadProjects b w uid))"
  using assms by (simp_all add: loadProjects_def Let_def Un_assoc)

lemma loadProjects_survives_database_failure:
  assumes "getDocs b uid = Inl err" and "window_defined w"
  shows "loadProjects b w uid
       = sort_key (\<lambda>p. - int (sort_instant p)) (userLocalProjects w uid @ userTempProjects w uid)"
  using assms by (simp add: loadProjects_def getUserProjects_def Let_def)

subsection \<open>The quote slide\<close>

lemma quote_elements:
  "elements_with_tag ''blockquote'' (render_quote th sl)
     = [Element ''blockquote''
          [(''className'', getTextSizeClass (str_or (titleSize (styling_of sl)) ''4xl'')
              @ '' italic mb-8 leading-relaxed'')]
          (heading_style th sl)
          ([Text [CHR 0x22]] @ quote_body (s_content sl) @ [Text [CHR 0x22]])]"
  by (auto simp: render_quote_def slide_frame_def attribution_def quote_body_def
      split: option.splits slide_content.splits)

lemma cite_elements:
  "elements_with_tag ''cite'' (render_quote th sl) = attribution th sl"
  by (auto simp: render_quote_def slide_frame_def attribution_def quote_body_def
      split: option.splits slide_content.splits)

text \<open>
  Claim C9, as stated: an attribution is rendered if and only if the author field is
  present. A quote slide whose author is the empty string has the field and gets no
  attribution.
\<close>

theorem empty_author_has_no_attribution_counterexample:
  "s_type (quote_slide (ContentString ''Stay curious.'') (Some [])) = ''quote''
   \<and> s_author (quote_slide (ContentString ''Stay curious.'') (Some [])) \<noteq> None
   \<and> renderSlide example_theme (quote_slide (ContentString ''Stay curious.'') (Some []))
       = render_quote example_theme (quote_slide (ContentString ''Stay curious.'') (Some []))
   \<and> elements_with_tag ''cite''
        (render_quote example_theme (quote_slide (ContentString ''Stay curious.'') (Some [])))
       = []"
  by (simp add: cite_elements attribution_def quote_slide_def renderSlide_def)

text \<open>
  Claim C9, amended. For every quote slide, the renderer puts into the block quote, between
  quotation marks, the elements of a list-valued content joined with single spaces, and it
  renders an attribution (a dash and the author) if and only if the author field is present
  and not empty. A quote slide with content ["Part one.", "Part two."] and no author gives
  the text "Part one. Part two." and no attribution.
\<close>

theorem quote_slide_rendering:
  assumes "s_type sl = ''quote''"
  shows "renderSlide th sl = render_quote th sl
     \<and> (\<forall>xs. s_content sl = ContentList xs \<longrightarrow>
           map text_of (elements_with_tag ''blockquote'' (render_quote th sl))
             = [[CHR 0x22] @ join xs '' '' @ [CHR 0x22]])
     \<and> (elements_with_tag ''cite'' (render_quote th sl) \<noteq> []
           \<longleftrightarrow> (\<exists>a. s_author sl = Some a \<and> a \<noteq> []))
     \<and> (\<forall>a. s_author sl = Some a \<and> a \<noteq> [] \<longrightarrow>
           map text_of (elements_with_tag ''cite'' (render_quote th sl))
             = [[CHR 0xE2, CHR 0x80, CHR 0x94, CHR '' ''] @ a])"
  using assms
  by (auto simp: renderSlide_def quote_elements cite_elements quote_body_def attribution_def
      split: option.splits)

theorem quote_slide_rendering_witness:
  "s_type (quote_slide (ContentList [''Part one.'', ''Part two.'']) None) = ''quote''
   \<and> map text_of (elements_with_tag ''blockquote''
        (render_quote example_theme (quote_slide (ContentList [''Part one.'', ''Part two.'']) None)))
       = [[CHR 0x22] @ ''Part one. Part two.'' @ [CHR 0x22]]
   \<and> elements_with_tag ''cite''
        (render_quote example_theme (quote_slide (ContentList [''Part one.'', ''Part two.'']) None))
       = []"
proof -
  have quote: "s_type (quote_slide (ContentList [''Part one.'', ''Part two.'']) None) = ''quote''"
    and content: "s_content (quote_slide (ContentList [''Part one.'', ''Part two.'']) None)
       = ContentList [''Part one.'', ''Part two.'']"
    and author: "s_author (quote_slide (ContentList [''Part one.'', ''Part two.'']) None) = None"
    by (simp_all add: quote_slide_def)
  from quote_slide_rendering [OF quote, of example_theme] content author quote
  show ?thesis by simp
qed

end
